theory Spec2Isabelle
  imports Complex_Main "HOL-Library.Log_Nat"
begin

section \<open>Python dictionaries and strings\<close>

text \<open>
  A Python \<^verbatim>\<open>dict\<close> keeps its items in insertion order and holds every key once: it is
  an association list whose keys are distinct. Storing under a key that is present
  replaces the value in place, storing under a new key appends the item.
  A \<^verbatim>\<open>str\<close> is a \<open>string\<close>, one \<open>char\<close> per character.
\<close>

type_synonym 'v dict = "(string \<times> 'v) list"

fun dict_set :: "'v dict \<Rightarrow> string \<Rightarrow> 'v \<Rightarrow> 'v dict" where
  "dict_set [] k v = [(k, v)]"
| "dict_set ((k', v') # d) k v =
     (if k' = k then (k', v) # d else (k', v') # dict_set d k v)"

text \<open>\<^verbatim>\<open>dict(pairs)\<close> and the dict comprehension \<^verbatim>\<open>{k: e for ...}\<close>: the items are
  stored one after the other into an empty dict.\<close>

definition dict_of_items :: "(string \<times> 'v) list \<Rightarrow> 'v dict" where
  "dict_of_items xs = foldl (\<lambda>d (k, v). dict_set d k v) [] xs"

text \<open>\<^verbatim>\<open>str.lower()\<close> on the ASCII letters; every other character is kept. (Header names
  are ASCII; no Latin-1 character lowercases to an ASCII letter.)\<close>

definition ascii_lower :: "char \<Rightarrow> char" where
  "ascii_lower c =
     (case map_of (zip ''ABCDEFGHIJKLMNOPQRSTUVWXYZ'' ''abcdefghijklmnopqrstuvwxyz'') c of
        Some l \<Rightarrow> l
      | None \<Rightarrow> c)"

definition lower :: "string \<Rightarrow> string" where
  "lower s = map ascii_lower s"

section \<open>Helpers: \<^verbatim>\<open>_scrub_headers\<close>\<close>

text \<open>
  \<^verbatim>\<open>
  def _scrub_headers(h: dict) -> dict:
      if not h:
          return {}
      redact = {"authorization", "cookie", "x-api-key", "proxy-authorization"}
      return {k: (v if k.lower() not in redact else "[REDACTED]") for k, v in h.items()}
  \<close>
  The argument is \<open>None\<close> or a dict; both \<open>None\<close> and the empty dict are falsy.
\<close>

definition redact :: "string set" where
  "redact = {''authorization'', ''cookie'', ''x-api-key'', ''proxy-authorization''}"

definition scrub_value :: "string \<Rightarrow> string \<Rightarrow> string" where
  "scrub_value k v = (if lower k \<notin> redact then v else ''[REDACTED]'')"

definition scrub_headers :: "string dict option \<Rightarrow> string dict" where
  "scrub_headers h =
     (case h of
        None \<Rightarrow> []
      | Some d \<Rightarrow>
          if d = [] then []
          else dict_of_items (map (\<lambda>(k, v). (k, scrub_value k v)) d))"

text \<open>
  The same function on a store of dict objects, to speak about mutation: the argument
  is a reference (or \<open>None\<close>), and both the literal \<^verbatim>\<open>{}\<close> and the comprehension build a
  new dict object, whose reference is returned.
\<close>

record heap =
  dicts :: "nat \<rightharpoonup> string dict"
  next_ref :: nat

definition alloc :: "string dict \<Rightarrow> heap \<Rightarrow> nat \<times> heap" where
  "alloc d hp =
     (next_ref hp, hp\<lparr>dicts := (dicts hp)(next_ref hp \<mapsto> d), next_ref := Suc (next_ref hp)\<rparr>)"

definition scrub_headers_heap :: "nat option \<Rightarrow> heap \<Rightarrow> nat \<times> heap" where
  "scrub_headers_heap h hp = alloc (scrub_headers (Option.bind h (dicts hp))) hp"

text \<open>The spec's reading of "case-insensitively equals": equal after lowercasing both.\<close>

definition ci_equal :: "string \<Rightarrow> string \<Rightarrow> bool" where
  "ci_equal a b = (lower a = lower b)"

definition sensitive :: "string \<Rightarrow> bool" where
  "sensitive k = (\<exists>s \<in> redact. ci_equal k s)"

section \<open>Python floats\<close>

text \<open>
  A Python \<^verbatim>\<open>float\<close> is an IEEE 754 binary64 value: a finite one is the rational number
  it denotes, and every arithmetic result is the exact result rounded to the nearest
  binary64 value, ties to the even significand. The sign of zero is not modelled
  (\<^verbatim>\<open>-0.0 == 0.0\<close> in Python).
\<close>

datatype pyfloat = Finite rat | PosInf | NegInf | NaN

definition two_pow :: "int \<Rightarrow> rat" where
  "two_pow e = (if 0 \<le> e then 2 ^ nat e else 1 / 2 ^ nat (- e))"

text \<open>The binary exponent of a positive rational: \<open>two_pow (ilog2 a) \<le> a < two_pow (ilog2 a + 1)\<close>.\<close>

definition ilog2 :: "rat \<Rightarrow> int" where
  "ilog2 a = (if 1 \<le> a then bitlen \<lfloor>a\<rfloor> - 1 else - bitlen (\<lceil>1 / a\<rceil> - 1))"

definition round_half_even :: "rat \<Rightarrow> int" where
  "round_half_even x =
     (let f = \<lfloor>x\<rfloor>; d = x - of_int f
      in if d < 1 / 2 then f else if 1 / 2 < d then f + 1 else if even f then f else f + 1)"

text \<open>
  Rounding to binary64: 53 significant bits, the least exponent \<open>-1022\<close> (below it the
  spacing stays \<open>2\<^sup>-\<^sup>1\<^sup>0\<^sup>7\<^sup>4\<close>, the subnormal numbers), and infinity from \<open>2\<^sup>1\<^sup>0\<^sup>2\<^sup>4\<close> on.
\<close>

definition to_double :: "rat \<Rightarrow> pyfloat" where
  "to_double x =
     (if x = 0 then Finite 0
      else let a = \<bar>x\<bar>;
               e = max (ilog2 a) (- 1022);
               m = round_half_even (a / two_pow (e - 52))
           in if 1023 < e \<or> (e = 1023 \<and> 2 ^ 53 \<le> m)
              then (if 0 < x then PosInf else NegInf)
              else Finite (sgn x * (of_int m * two_pow (e - 52))))"

definition signed_inf :: "rat \<Rightarrow> pyfloat" where
  "signed_inf s = (if s = 0 then NaN else if 0 < s then PosInf else NegInf)"

fun fmul :: "pyfloat \<Rightarrow> pyfloat \<Rightarrow> pyfloat" where
  "fmul (Finite a) (Finite b) = to_double (a * b)"
| "fmul NaN y = NaN"
| "fmul x NaN = NaN"
| "fmul (Finite a) PosInf = signed_inf a"
| "fmul (Finite a) NegInf = signed_inf (- a)"
| "fmul PosInf (Finite b) = signed_inf b"
| "fmul NegInf (Finite b) = signed_inf (- b)"
| "fmul PosInf PosInf = PosInf"
| "fmul PosInf NegInf = NegInf"
| "fmul NegInf PosInf = NegInf"
| "fmul NegInf NegInf = PosInf"

fun fadd :: "pyfloat \<Rightarrow> pyfloat \<Rightarrow> pyfloat" where
  "fadd (Finite a) (Finite b) = to_double (a + b)"
| "fadd NaN y = NaN"
| "fadd x NaN = NaN"
| "fadd PosInf NegInf = NaN"
| "fadd NegInf PosInf = NaN"
| "fadd PosInf y = PosInf"
| "fadd NegInf y = NegInf"
| "fadd (Finite a) PosInf = PosInf"
| "fadd (Finite a) NegInf = NegInf"

section \<open>Exceptions\<close>

text \<open>
  The exception classes the handlers of \<^verbatim>\<open>ask_question\<close> tell apart, each with its
  message \<^verbatim>\<open>str(e)\<close>: \<^verbatim>\<open>RateLimitError\<close> and \<^verbatim>\<open>AuthenticationError\<close>, any other
  \<^verbatim>\<open>APIError\<close>, and any other \<^verbatim>\<open>Exception\<close>.
\<close>

datatype exn =
    RateLimitError string
  | AuthenticationError string
  | APIError string
  | OtherException string

text \<open>\<^verbatim>\<open>float(n)\<close> of an int: correctly rounded, \<^verbatim>\<open>OverflowError\<close> when out of range.\<close>

definition int_to_float :: "int \<Rightarrow> exn + pyfloat" where
  "int_to_float n =
     (case to_double (of_int n) of
        Finite r \<Rightarrow> Inr (Finite r)
      | _ \<Rightarrow> Inl (OtherException ''int too large to convert to float''))"

text \<open>\<^verbatim>\<open>x / y\<close> on floats; a zero divisor raises \<^verbatim>\<open>ZeroDivisionError\<close>.\<close>

fun float_truediv :: "pyfloat \<Rightarrow> pyfloat \<Rightarrow> exn + pyfloat" where
  "float_truediv (Finite a) (Finite b) =
     (if b = 0 then Inl (OtherException ''float division by zero'')
      else Inr (to_double (a / b)))"
| "float_truediv NaN y = Inr NaN"
| "float_truediv x NaN = Inr NaN"
| "float_truediv (Finite a) y = Inr (Finite 0)"
| "float_truediv x (Finite b) =
     (if b = 0 then Inl (OtherException ''float division by zero'')
      else Inr (fmul x (Finite (sgn b))))"
| "float_truediv x y = Inr NaN"

text \<open>\<^verbatim>\<open>n / y\<close> with an int \<open>n\<close> and a float \<open>y\<close>: the int is converted first.\<close>

definition int_truediv_float :: "int \<Rightarrow> pyfloat \<Rightarrow> exn + pyfloat" where
  "int_truediv_float n y =
     (case int_to_float n of
        Inl e \<Rightarrow> Inl e
      | Inr x \<Rightarrow> float_truediv x y)"

text \<open>
  \<^verbatim>\<open>round(x, ndigits)\<close> on a float, \<open>ndigits \<ge> 0\<close>: infinities and NaN round to
  themselves; with more than 323 digits the value is returned as it is; otherwise the
  exact value is rounded to \<open>ndigits\<close> decimals, ties to even, and the decimal result is
  converted back to the nearest float.
\<close>

fun py_round :: "pyfloat \<Rightarrow> nat \<Rightarrow> pyfloat" where
  "py_round (Finite a) ndigits =
     (if 323 < ndigits then Finite a
      else to_double (of_int (round_half_even (a * 10 ^ ndigits)) / 10 ^ ndigits))"
| "py_round x ndigits = x"

section \<open>Configuration and \<^verbatim>\<open>compute_llm_cost_usd\<close>\<close>

text \<open>
  The module-level settings read from the environment at start-up. The three floats
  come from \<^verbatim>\<open>_get_float_env\<close>, that is from \<^verbatim>\<open>float(...)\<close> of a string: any float.
\<close>

record config =
  DEFAULT_MODEL :: string
  SERVICE_NAME :: string
  ENV :: string
  PRICE_IN_PER_KTOK :: pyfloat
  PRICE_OUT_PER_KTOK :: pyfloat
  COST_SPLUNK_SCALE :: pyfloat

text \<open>
  \<^verbatim>\<open>
  def compute_llm_cost_usd(prompt_tokens: int, completion_tokens: int):
      input_cost = round((prompt_tokens / 1000.0) * PRICE_IN_PER_KTOK, 6)
      output_cost = round((completion_tokens / 1000.0) * PRICE_OUT_PER_KTOK, 6)
      total_cost = round(input_cost + output_cost, 6)
      return input_cost, output_cost, total_cost
  \<close>
\<close>

definition compute_llm_cost_usd :: "config \<Rightarrow> int \<Rightarrow> int \<Rightarrow> exn + pyfloat \<times> pyfloat \<times> pyfloat" where
  "compute_llm_cost_usd cfg prompt_tokens completion_tokens =
     (case int_truediv_float prompt_tokens (Finite 1000) of
        Inl e \<Rightarrow> Inl e
      | Inr p \<Rightarrow>
          let input_cost = py_round (fmul p (PRICE_IN_PER_KTOK cfg)) 6
          in (case int_truediv_float completion_tokens (Finite 1000) of
                Inl e \<Rightarrow> Inl e
              | Inr c \<Rightarrow>
                  let output_cost = py_round (fmul c (PRICE_OUT_PER_KTOK cfg)) 6;
                      total_cost = py_round (fadd input_cost output_cost) 6
                  in Inr (input_cost, output_cost, total_cost)))"

text \<open>
  The scaled figures of \<^verbatim>\<open>ask_question\<close>:
  \<^verbatim>\<open>
  in_cost_splunk  = round(in_cost  * COST_SPLUNK_SCALE, 6)
  out_cost_splunk = round(out_cost * COST_SPLUNK_SCALE, 6)
  total_cost_sp   = round(total_cost * COST_SPLUNK_SCALE, 6)
  \<close>
\<close>

definition cost_splunk :: "config \<Rightarrow> pyfloat \<times> pyfloat \<times> pyfloat \<Rightarrow> pyfloat \<times> pyfloat \<times> pyfloat" where
  "cost_splunk cfg costs =
     (case costs of (in_cost, out_cost, total_cost) \<Rightarrow>
        (py_round (fmul in_cost (COST_SPLUNK_SCALE cfg)) 6,
         py_round (fmul out_cost (COST_SPLUNK_SCALE cfg)) 6,
         py_round (fmul total_cost (COST_SPLUNK_SCALE cfg)) 6))"

section \<open>Telemetry calls\<close>

text \<open>
  The values handed to the telemetry sinks and to \<^verbatim>\<open>jsonify\<close>. \<open>VStrOf x\<close> is the
  string \<^verbatim>\<open>str(x)\<close>.
\<close>

datatype pyval =
    VNone
  | VBool bool
  | VInt int
  | VFloat pyfloat
  | VStr string
  | VList "pyval list"
  | VDict "(string \<times> pyval) list"
  | VStrOf pyval

definition opt_str :: "string option \<Rightarrow> pyval" where
  "opt_str x = (case x of None \<Rightarrow> VNone | Some s \<Rightarrow> VStr s)"

definition dict_val :: "string dict \<Rightarrow> pyval" where
  "dict_val d = VDict (map (\<lambda>(k, v). (k, VStr v)) d)"

text \<open>
  Every call of the handler to a telemetry sink is one event, in the order of the calls:
  the three OpenTelemetry instruments, the logger (\<^verbatim>\<open>logger.exception\<close> logs at level
  \<open>ERROR\<close> with the exception attached), the Langfuse client (keyword arguments as a
  dict) and the OpenTelemetry spans. A span is closed by leaving its \<^verbatim>\<open>with\<close> block,
  with the exception that passes through it, if any. The sinks themselves and
  \<^verbatim>\<open>jsonify\<close> are taken not to raise. \<open>current_span\<close> is the span that
  \<^verbatim>\<open>trace.get_current_span()\<close> returns in the \<^verbatim>\<open>finally\<close> block; a span object is truthy.
\<close>

datatype level = INFO | WARNING | ERROR

datatype otel_span = root_span | llm_span | current_span

datatype event =
    CounterAdd string int "(string \<times> pyval) list"
  | HistogramRecord string int "(string \<times> pyval) list"
  | Log level string "(string \<times> pyval) list" "exn option"
  | LfStartSpan string
  | LfEndSpan string
  | OtelStartSpan string "(string \<times> pyval) list"
  | OtelEndSpan string "exn option"
  | LfStartObservation "(string \<times> pyval) list"
  | LfEndObservation string "exn option"
  | LfUpdateCurrentSpan "(string \<times> pyval) list"
  | LfUpdateCurrentTrace "(string \<times> pyval) list"
  | GenerationUpdate "(string \<times> pyval) list"
  | SetAttribute otel_span string pyval

section \<open>The request and the collaborators\<close>

text \<open>
  The parsed body \<^verbatim>\<open>request.get_json(force=True) or {}\<close> with its two fields (absent
  is \<open>None\<close>); \<^verbatim>\<open>get_json\<close> raises on a body that is not JSON. The two fields are strings,
  as the route's interface has them. The headers are the items \<^verbatim>\<open>request.headers\<close>
  iterates over.
\<close>

record json_body =
  body_userType :: "string option"
  body_question :: "string option"

record request =
  headers :: "(string \<times> string) list"
  remote_addr :: "string option"
  get_json :: "exn + json_body"

text \<open>
  The completion the inference client returns: the \<^verbatim>\<open>message.content\<close> of each choice
  and the \<^verbatim>\<open>usage\<close> object with its three counts, if present.
\<close>

datatype usage = CompletionUsage int int int

record completion =
  choices :: "string option list"
  usage_of :: "usage option"

text \<open>
  What the run takes from outside: the two generated identifiers, the inference client
  \<^verbatim>\<open>client.chat.completions.create(model, messages, metadata)\<close>, and the clock:
  \<open>latency_clock w n\<close> is the value of \<^verbatim>\<open>int((time.perf_counter() - started) * 1000)\<close>
  at its \<open>n\<close>-th evaluation in the request.
\<close>

record world =
  request_id :: string
  session_id :: string
  create :: "string \<Rightarrow> pyval \<Rightarrow> pyval \<Rightarrow> exn + completion"
  latency_clock :: "nat \<Rightarrow> int"

text \<open>\<^verbatim>\<open>request.headers.get(name, default)\<close>: the first item whose key matches, whatever
  the case.\<close>

fun headers_get :: "(string \<times> string) list \<Rightarrow> string \<Rightarrow> string option \<Rightarrow> string option" where
  "headers_get [] name dflt = dflt"
| "headers_get ((k, v) # hs) name dflt =
     (if lower k = lower name then Some v else headers_get hs name dflt)"

definition truthy :: "string option \<Rightarrow> bool" where
  "truthy x = (case x of None \<Rightarrow> False | Some s \<Rightarrow> s \<noteq> [])"

definition system_prompt :: "string \<Rightarrow> string" where
  "system_prompt user_type = ''You are answering as user type: '' @ user_type @ ''.''"

definition chat_messages :: "string \<Rightarrow> string \<Rightarrow> pyval" where
  "chat_messages user_type question =
     VList [VDict [(''role'', VStr ''system''), (''content'', VStr (system_prompt user_type))],
            VDict [(''role'', VStr ''user''), (''content'', VStr question)]]"

section \<open>\<^verbatim>\<open>ask_question\<close>\<close>

subsection \<open>Token counts\<close>

text \<open>
  \<^verbatim>\<open>
  usage = getattr(completion, "usage", None) or {}
  prompt_tokens = int(getattr(usage, "prompt_tokens", 0) or usage.get("prompt_tokens", 0) or 0)
  completion_tokens = int(getattr(usage, "completion_tokens", 0) or usage.get("completion_tokens", 0) or 0)
  total_tokens = int(getattr(usage, "total_tokens", 0) or usage.get("total_tokens", 0) or (prompt_tokens + completion_tokens))
  \<close>
  Without a usage object \<open>usage\<close> is the empty dict and every lookup gives the default.
  With one, a count that is not zero is taken from the attribute; a zero count falls
  through to \<^verbatim>\<open>usage.get\<close>, which the usage object does not have: \<^verbatim>\<open>AttributeError\<close>.
\<close>

definition no_get_attribute :: string where
  "no_get_attribute =
     CHR 0x27 # ''CompletionUsage' object has no attribute 'get'' @ [CHR 0x27]"

definition token_count :: "int option \<Rightarrow> int \<Rightarrow> exn + int" where
  "token_count attr dflt =
     (case attr of
        None \<Rightarrow> Inr dflt
      | Some n \<Rightarrow> if n \<noteq> 0 then Inr n else Inl (OtherException no_get_attribute))"

definition read_usage :: "usage option \<Rightarrow> exn + int \<times> int \<times> int" where
  "read_usage u =
     (case token_count (map_option (\<lambda>u. case u of CompletionUsage p c t \<Rightarrow> p) u) 0 of
        Inl e \<Rightarrow> Inl e
      | Inr prompt_tokens \<Rightarrow>
     (case token_count (map_option (\<lambda>u. case u of CompletionUsage p c t \<Rightarrow> c) u) 0 of
        Inl e \<Rightarrow> Inl e
      | Inr completion_tokens \<Rightarrow>
     (case token_count (map_option (\<lambda>u. case u of CompletionUsage p c t \<Rightarrow> t) u)
             (prompt_tokens + completion_tokens) of
        Inl e \<Rightarrow> Inl e
      | Inr total_tokens \<Rightarrow> Inr (prompt_tokens, completion_tokens, total_tokens))))"

subsection \<open>The LLM span (lines 259 to 359)\<close>

definition usage_events :: "config \<Rightarrow> world \<Rightarrow> int \<times> int \<times> int \<Rightarrow> event list" where
  "usage_events cfg w toks =
     (case toks of (prompt_tokens, completion_tokens, total_tokens) \<Rightarrow>
        (if prompt_tokens \<noteq> 0
         then [CounterAdd ''llm.tokens'' prompt_tokens
                 [(''llm.token_type'', VStr ''prompt''), (''llm.model'', VStr (DEFAULT_MODEL cfg))]]
         else [])
        @ (if completion_tokens \<noteq> 0
           then [CounterAdd ''llm.tokens'' completion_tokens
                   [(''llm.token_type'', VStr ''completion''), (''llm.model'', VStr (DEFAULT_MODEL cfg))]]
           else [])
        @ [Log INFO ''llm_usage''
             [(''request.id'', VStr (request_id w)),
              (''llm.model'', VStr (DEFAULT_MODEL cfg)),
              (''usage.prompt_tokens'', VInt prompt_tokens),
              (''usage.completion_tokens'', VInt completion_tokens),
              (''usage.total_tokens'', VInt total_tokens)] None])"

definition cost_events ::
  "config \<Rightarrow> string option \<Rightarrow> int \<times> int \<times> int \<Rightarrow> pyfloat \<times> pyfloat \<times> pyfloat \<Rightarrow> event list" where
  "cost_events cfg answer toks costs =
     (case toks of (prompt_tokens, completion_tokens, total_tokens) \<Rightarrow>
      case costs of (in_cost, out_cost, total_cost) \<Rightarrow>
      case cost_splunk cfg costs of (in_cost_splunk, out_cost_splunk, total_cost_sp) \<Rightarrow>
        [SetAttribute llm_span ''llm.usage.prompt_tokens'' (VInt prompt_tokens),
         SetAttribute llm_span ''llm.usage.completion_tokens'' (VInt completion_tokens),
         SetAttribute llm_span ''llm.usage.total_tokens'' (VInt total_tokens),
         SetAttribute llm_span ''llm.cost.input_usd'' (VFloat in_cost_splunk),
         SetAttribute llm_span ''llm.cost.output_usd'' (VFloat out_cost_splunk),
         SetAttribute llm_span ''llm.cost.usd'' (VFloat total_cost_sp)]
        @ (case answer of
             None \<Rightarrow> []
           | Some a \<Rightarrow>
               if a \<noteq> []
               then [SetAttribute llm_span ''llm.output.length'' (VInt (int (length a))),
                     SetAttribute llm_span ''llm.output.excerpt'' (VStr (take 500 a))]
               else [])
        @ [GenerationUpdate
             [(''output'', opt_str answer),
              (''usage_details'',
                 VDict [(''prompt_tokens'', VInt prompt_tokens),
                        (''completion_tokens'', VInt completion_tokens),
                        (''total_tokens'', VInt total_tokens)]),
              (''cost_details'',
                 VDict [(''input'', VFloat in_cost), (''output'', VFloat out_cost),
                        (''total'', VFloat total_cost)])],
           LfUpdateCurrentSpan [(''metadata'', VDict [(''llm.cost.source'', VStr ''app_env_prices'')])],
           LfUpdateCurrentTrace [(''metadata'', VDict [(''llm.cost.source'', VStr ''app_env_prices'')])],
           LfUpdateCurrentSpan
             [(''metadata'',
                 VDict [(''llm.model'', VStr (DEFAULT_MODEL cfg)),
                        (''llm.usage.prompt_tokens'', VInt prompt_tokens),
                        (''llm.usage.completion_tokens'', VInt completion_tokens),
                        (''llm.usage.total_tokens'', VInt total_tokens),
                        (''llm.cost.input_usd'', VFloat in_cost),
                        (''llm.cost.output_usd'', VFloat out_cost),
                        (''llm.cost.usd'', VFloat total_cost)])],
           LfUpdateCurrentTrace
             [(''metadata'',
                 VDict [(''llm.model'', VStr (DEFAULT_MODEL cfg)),
                        (''llm.cost.usd'', VFloat total_cost)])],
           SetAttribute root_span ''llm.usage.prompt_tokens'' (VInt prompt_tokens),
           SetAttribute root_span ''llm.usage.completion_tokens'' (VInt completion_tokens),
           SetAttribute root_span ''llm.usage.total_tokens'' (VInt total_tokens),
           SetAttribute root_span ''llm.cost.input_usd'' (VFloat in_cost_splunk),
           SetAttribute root_span ''llm.cost.output_usd'' (VFloat out_cost_splunk),
           SetAttribute root_span ''llm.cost.usd'' (VFloat total_cost_sp)])"

text \<open>The call of the inference client (lines 281 to 288).\<close>

definition call_create :: "config \<Rightarrow> world \<Rightarrow> string \<Rightarrow> string \<Rightarrow> exn + completion" where
  "call_create cfg w user_type question =
     create w (DEFAULT_MODEL cfg) (chat_messages user_type question)
       (VDict [(''langfuse_user_id'', VStr user_type),
               (''langfuse_session_id'', VStr (session_id w))])"

text \<open>The body of the two nested \<^verbatim>\<open>with\<close> blocks: the events it emits, then the answer
  or the exception that leaves it.\<close>

definition generation_body ::
  "config \<Rightarrow> world \<Rightarrow> string \<Rightarrow> string \<Rightarrow> event list \<times> (exn + string option)" where
  "generation_body cfg w user_type question =
     (case call_create cfg w user_type question of
        Inl e \<Rightarrow> ([], Inl e)
      | Inr completion \<Rightarrow>
     (case choices completion of
        [] \<Rightarrow> ([], Inl (OtherException ''list index out of range''))
      | answer # _ \<Rightarrow>
     (case read_usage (usage_of completion) of
        Inl e \<Rightarrow> ([], Inl e)
      | Inr toks \<Rightarrow>
     (case compute_llm_cost_usd cfg (fst toks) (fst (snd toks)) of
        Inl e \<Rightarrow> (usage_events cfg w toks, Inl e)
      | Inr costs \<Rightarrow>
          (usage_events cfg w toks @ cost_events cfg answer toks costs, Inr answer)))))"

definition raised :: "exn + 'a \<Rightarrow> exn option" where
  "raised r = (case r of Inl e \<Rightarrow> Some e | Inr _ \<Rightarrow> None)"

definition llm_block ::
  "config \<Rightarrow> world \<Rightarrow> string \<Rightarrow> string \<Rightarrow> event list \<times> (exn + string option)" where
  "llm_block cfg w user_type question =
     (case generation_body cfg w user_type question of (evs, r) \<Rightarrow>
        ([OtelStartSpan ''openai.chat.completions.create''
            [(''llm.vendor'', VStr ''openai''),
             (''llm.model'', VStr (DEFAULT_MODEL cfg)),
             (''llm.input.role.system'', VStr (system_prompt user_type)),
             (''lf.user_id'', VStr user_type),
             (''lf.session_id'', VStr (session_id w))],
          LfStartObservation
            [(''as_type'', VStr ''generation''),
             (''name'', VStr ''openai-style-generation''),
             (''model'', VStr (DEFAULT_MODEL cfg)),
             (''input'', chat_messages user_type question)]]
         @ evs
         @ [LfEndObservation ''openai-style-generation'' (raised r),
            OtelEndSpan ''openai.chat.completions.create'' (raised r)],
         r))"

subsection \<open>The \<^verbatim>\<open>try\<close> block (lines 205 to 374)\<close>

definition parsed_events :: "config \<Rightarrow> world \<Rightarrow> request \<Rightarrow> string \<Rightarrow> string option \<Rightarrow> event list" where
  "parsed_events cfg w rq user_type question =
     [Log INFO ''request_parsed''
        [(''request.id'', VStr (request_id w)),
         (''user.type'', VStr user_type),
         (''has.question'', VBool (truthy question))] None,
      LfUpdateCurrentSpan
        [(''name'', VStr ''ask_question_request''),
         (''input'',
            VDict [(''request_id'', VStr (request_id w)),
                   (''route'', VStr ''/askquestion''),
                   (''client_ip'', opt_str (headers_get (headers rq) ''X-Forwarded-For'' (remote_addr rq))),
                   (''headers'', dict_val (scrub_headers (Some (dict_of_items (headers rq))))),
                   (''userType'', VStr user_type),
                   (''question'', opt_str question)]),
         (''metadata'',
            VDict [(''env'', VStr (ENV cfg)), (''service'', VStr (SERVICE_NAME cfg)),
                   (''component'', VStr ''ask_question'')])],
      LfUpdateCurrentTrace
        [(''user_id'', VStr user_type),
         (''session_id'', VStr (session_id w)),
         (''input'', VDict [(''question'', opt_str question)])],
      SetAttribute root_span ''lf.user_id'' (VStr user_type),
      SetAttribute root_span ''request.headers''
        (VStrOf (dict_val (scrub_headers (Some (dict_of_items (headers rq)))))),
      SetAttribute root_span ''llm.input.userType'' (VStr user_type)]
     @ (if truthy question then [SetAttribute root_span ''llm.input.question'' (opt_str question)] else [])"

definition bad_request_events :: "world \<Rightarrow> int \<Rightarrow> int \<Rightarrow> event list" where
  "bad_request_events w status_code latency_ms =
     [HistogramRecord ''http.server.request.duration'' latency_ms
        [(''http.route'', VStr ''/askquestion''), (''http.status_code'', VInt status_code)],
      Log WARNING ''request_bad_request''
        [(''request.id'', VStr (request_id w)), (''http.status_code'', VInt status_code),
         (''latency_ms'', VInt latency_ms)] None,
      LfUpdateCurrentSpan
        [(''metadata'',
            VDict [(''status'', VStr ''bad_request''), (''http_status'', VInt status_code),
                   (''latency_ms'', VInt latency_ms)])],
      LfUpdateCurrentTrace [(''output'', VDict [(''error'', VStr ''missing_question'')])],
      SetAttribute root_span ''http.status_code'' (VInt status_code),
      SetAttribute root_span ''error'' (VBool True),
      SetAttribute root_span ''error.type'' (VStr ''bad_request''),
      SetAttribute root_span ''latency_ms'' (VInt latency_ms)]"

definition success_events :: "world \<Rightarrow> string option \<Rightarrow> int \<Rightarrow> int \<Rightarrow> event list" where
  "success_events w answer status_code latency_ms =
     [LfUpdateCurrentSpan
        [(''output'', VDict [(''answer'', opt_str answer)]),
         (''metadata'',
            VDict [(''status'', VStr ''ok''), (''http_status'', VInt status_code),
                   (''latency_ms'', VInt latency_ms)])],
      LfUpdateCurrentTrace [(''output'', VDict [(''answer'', opt_str answer)])],
      SetAttribute root_span ''http.status_code'' (VInt status_code),
      SetAttribute root_span ''latency_ms'' (VInt latency_ms)]
     @ (case answer of
          None \<Rightarrow> []
        | Some a \<Rightarrow>
            if a \<noteq> [] then [SetAttribute root_span ''llm.output.excerpt'' (VStr (take 500 a))]
            else [])
     @ [HistogramRecord ''http.server.request.duration'' latency_ms
          [(''http.route'', VStr ''/askquestion''), (''http.status_code'', VInt status_code)],
        Log INFO ''request_success''
          [(''request.id'', VStr (request_id w)), (''http.status_code'', VInt status_code),
           (''latency_ms'', VInt latency_ms)] None]"

text \<open>\<^verbatim>\<open>user_type = (data.get("userType") or "anonymous")\<close>\<close>

definition user_type_of :: "json_body \<Rightarrow> string" where
  "user_type_of data =
     (case body_userType data of
        None \<Rightarrow> ''anonymous''
      | Some u \<Rightarrow> if u \<noteq> [] then u else ''anonymous'')"

text \<open>
  The result of the \<^verbatim>\<open>try\<close> block: the events, the value of \<^verbatim>\<open>status_code\<close> when the
  block is left, how often the clock was read, and either the returned response
  (\<^verbatim>\<open>jsonify\<close> body and status) or the exception raised.
\<close>

type_synonym response = "pyval \<times> int"

definition try_block ::
  "config \<Rightarrow> world \<Rightarrow> request \<Rightarrow> event list \<times> int \<times> nat \<times> (exn + response)" where
  "try_block cfg w rq =
     (case get_json rq of
        Inl e \<Rightarrow> ([], 500, 0, Inl e)
      | Inr data \<Rightarrow>
          let user_type = user_type_of data;
              question = body_question data;
              evs = parsed_events cfg w rq user_type question
          in (case question of
                None \<Rightarrow>
                  (evs @ bad_request_events w 400 (latency_clock w 0), 400, 1,
                   Inr (VDict [(''error'', VStr ''Missing 'question' in body''),
                               (''sessionId'', VStr (session_id w)),
                               (''userId'', VStr user_type)], 400))
              | Some q \<Rightarrow>
                  if q = [] then
                    (evs @ bad_request_events w 400 (latency_clock w 0), 400, 1,
                     Inr (VDict [(''error'', VStr ''Missing 'question' in body''),
                                 (''sessionId'', VStr (session_id w)),
                                 (''userId'', VStr user_type)], 400))
                  else
                    (case llm_block cfg w user_type q of
                       (llm_evs, Inl e) \<Rightarrow> (evs @ llm_evs, 500, 0, Inl e)
                     | (llm_evs, Inr answer) \<Rightarrow>
                         (evs @ llm_evs @ success_events w answer 200 (latency_clock w 0), 200, 1,
                          Inr (VDict [(''answer'', opt_str answer),
                                      (''sessionId'', VStr (session_id w)),
                                      (''userId'', VStr user_type)], 200)))))"

subsection \<open>The handlers and the \<^verbatim>\<open>finally\<close> block (lines 377 to 428)\<close>

definition handler_events ::
  "world \<Rightarrow> string \<Rightarrow> string \<Rightarrow> string \<Rightarrow> string \<Rightarrow> string \<Rightarrow> int \<Rightarrow> exn \<Rightarrow> event list" where
  "handler_events w log_event error_tag detail status exc_class status_code e =
     [Log ERROR log_event [(''request.id'', VStr (request_id w))] (Some e),
      LfUpdateCurrentSpan
        [(''output'', VDict [(''error'', VStr error_tag), (''detail'', VStr detail)]),
         (''metadata'', VDict [(''status'', VStr status), (''http_status'', VInt status_code)])],
      LfUpdateCurrentTrace
        [(''metadata'', VDict [(''error'', VBool True), (''error.type'', VStr exc_class)])]]"

fun except_block :: "world \<Rightarrow> exn \<Rightarrow> event list \<times> int" where
  "except_block w (RateLimitError msg) =
     (handler_events w ''openai_rate_limited'' ''rate_limit'' msg ''rate_limited''
        ''RateLimitError'' 429 (RateLimitError msg), 429)"
| "except_block w (AuthenticationError msg) =
     (handler_events w ''openai_auth_error'' ''auth_error'' ''Invalid or missing API key.''
        ''auth_error'' ''AuthenticationError'' 401 (AuthenticationError msg), 401)"
| "except_block w (APIError msg) =
     (handler_events w ''openai_api_error'' ''openai_api_error'' msg ''openai_api_error''
        ''APIError'' 502 (APIError msg), 502)"
| "except_block w (OtherException msg) =
     (handler_events w ''unhandled_exception'' ''server_error'' msg ''server_error''
        ''Exception'' 500 (OtherException msg), 500)"

definition finally_block :: "world \<Rightarrow> int \<Rightarrow> nat \<Rightarrow> event list" where
  "finally_block w status_code reads =
     (if status_code \<noteq> 200 then
        [HistogramRecord ''http.server.request.duration'' (latency_clock w reads)
           [(''http.route'', VStr ''/askquestion''), (''http.status_code'', VInt status_code)],
         Log ERROR ''request_error''
           [(''request.id'', VStr (request_id w)), (''http.status_code'', VInt status_code),
            (''latency_ms'', VInt (latency_clock w reads))] None,
         SetAttribute current_span ''error'' (VBool True),
         SetAttribute current_span ''error.status_code'' (VInt status_code)]
      else [])"

subsection \<open>The route\<close>

text \<open>
  The whole handler: the counter and the first log, the two root spans, the \<^verbatim>\<open>try\<close>
  block with its handlers and its \<^verbatim>\<open>finally\<close>, the end of the two root spans, and the
  response: the one returned inside the \<^verbatim>\<open>try\<close> block, or the generic one of line 428
  after a handler has run. The last handler catches every \<^verbatim>\<open>Exception\<close>, so each
  exception of the \<^verbatim>\<open>try\<close> block ends in a response.
\<close>

definition entry_events :: "config \<Rightarrow> world \<Rightarrow> event list" where
  "entry_events cfg w =
     [CounterAdd ''http.server.request.count'' 1
        [(''http.route'', VStr ''/askquestion''),
         (''deployment.environment'', VStr (ENV cfg))],
      Log INFO ''request_received''
        [(''request.id'', VStr (request_id w)), (''session.id'', VStr (session_id w))] None,
      LfStartSpan ''ask_question_request'',
      OtelStartSpan ''ask_question_request''
        [(''lf.request_id'', VStr (request_id w)),
         (''lf.session_id'', VStr (session_id w)),
         (''http.route'', VStr ''/askquestion'')]]"

definition exit_events :: "event list" where
  "exit_events = [OtelEndSpan ''ask_question_request'' None, LfEndSpan ''ask_question_request'']"

definition ask_question :: "config \<Rightarrow> world \<Rightarrow> request \<Rightarrow> event list \<times> response" where
  "ask_question cfg w rq =
     (case try_block cfg w rq of
        (try_evs, status_code, reads, Inr response) \<Rightarrow>
          (entry_events cfg w @ try_evs @ finally_block w status_code reads @ exit_events,
           response)
      | (try_evs, status_code, reads, Inl e) \<Rightarrow>
          (case except_block w e of (except_evs, status_code) \<Rightarrow>
             (entry_events cfg w @ try_evs @ except_evs @ finally_block w status_code reads
                @ exit_events,
              (VDict [(''error'', VStr ''request_failed'')], status_code))))"

section \<open>Reading the event list\<close>

text \<open>The events the properties speak about: an observation of the latency histogram, a
  terminal log event, the opening of the generation span pair, a token metric.\<close>

fun is_latency_observation :: "event \<Rightarrow> bool" where
  "is_latency_observation (HistogramRecord name v attrs) = (name = ''http.server.request.duration'')"
| "is_latency_observation e = False"

fun is_terminal_log :: "event \<Rightarrow> bool" where
  "is_terminal_log (Log lvl name extra exc) = (name = ''request_success'' \<or> name = ''request_error'')"
| "is_terminal_log e = False"

fun opens_generation :: "event \<Rightarrow> bool" where
  "opens_generation (OtelStartSpan name attrs) = (name = ''openai.chat.completions.create'')"
| "opens_generation (LfStartObservation args) = True"
| "opens_generation e = False"

fun is_token_metric :: "event \<Rightarrow> bool" where
  "is_token_metric (CounterAdd name n attrs) = (name = ''llm.tokens'')"
| "is_token_metric e = False"

text \<open>An attribute written to an OpenTelemetry span with a given value, under any key.\<close>

fun sets_value :: "pyval \<Rightarrow> event \<Rightarrow> bool" where
  "sets_value v (SetAttribute sp k v') = (v' = v)"
| "sets_value v e = False"

text \<open>An \<^verbatim>\<open>error.type\<close> attribute on an OpenTelemetry span, written by \<^verbatim>\<open>set_attribute\<close> or
  given when the span is started.\<close>

fun sets_error_type :: "event \<Rightarrow> bool" where
  "sets_error_type (SetAttribute sp k v) = (k = ''error.type'')"
| "sets_error_type (OtelStartSpan name attrs) = (''error.type'' \<in> set (map fst attrs))"
| "sets_error_type e = False"

text \<open>A Langfuse call that carries \<^verbatim>\<open>error = True\<close>, as a keyword argument or inside one of its
  dict arguments (\<^verbatim>\<open>metadata\<close>, \<^verbatim>\<open>output\<close>, \<^verbatim>\<open>input\<close>): on the current span, or on the
  current span or trace.\<close>

definition flagged :: "(string \<times> pyval) list \<Rightarrow> bool" where
  "flagged args =
     ((''error'', VBool True) \<in> set args
      \<or> list_ex (\<lambda>kv. case snd kv of VDict d \<Rightarrow> (''error'', VBool True) \<in> set d | _ \<Rightarrow> False) args)"

fun langfuse_span_error_flag :: "event \<Rightarrow> bool" where
  "langfuse_span_error_flag (LfUpdateCurrentSpan args) = flagged args"
| "langfuse_span_error_flag e = False"

fun langfuse_error_flag :: "event \<Rightarrow> bool" where
  "langfuse_error_flag (LfUpdateCurrentSpan args) = flagged args"
| "langfuse_error_flag (LfUpdateCurrentTrace args) = flagged args"
| "langfuse_error_flag e = False"

text \<open>What each handler chooses for its exception: the status, the error tag and the
  detail of the Langfuse span output, the status of the Langfuse span metadata, and the
  class name put on the Langfuse trace.\<close>

fun error_tag :: "exn \<Rightarrow> string" where
  "error_tag (RateLimitError msg) = ''rate_limit''"
| "error_tag (AuthenticationError msg) = ''auth_error''"
| "error_tag (APIError msg) = ''openai_api_error''"
| "error_tag (OtherException msg) = ''server_error''"

fun error_detail :: "exn \<Rightarrow> string" where
  "error_detail (RateLimitError msg) = msg"
| "error_detail (AuthenticationError msg) = ''Invalid or missing API key.''"
| "error_detail (APIError msg) = msg"
| "error_detail (OtherException msg) = msg"

fun langfuse_status :: "exn \<Rightarrow> string" where
  "langfuse_status (RateLimitError msg) = ''rate_limited''"
| "langfuse_status (AuthenticationError msg) = ''auth_error''"
| "langfuse_status (APIError msg) = ''openai_api_error''"
| "langfuse_status (OtherException msg) = ''server_error''"

fun exception_class :: "exn \<Rightarrow> string" where
  "exception_class (RateLimitError msg) = ''RateLimitError''"
| "exception_class (AuthenticationError msg) = ''AuthenticationError''"
| "exception_class (APIError msg) = ''APIError''"
| "exception_class (OtherException msg) = ''Exception''"

fun status_of :: "exn \<Rightarrow> int" where
  "status_of (RateLimitError msg) = 429"
| "status_of (AuthenticationError msg) = 401"
| "status_of (APIError msg) = 502"
| "status_of (OtherException msg) = 500"

section \<open>Two requests that differ in secrets only\<close>

text \<open>
  Two header items agree when they have the same key and, unless the key is one of the
  redacted ones, the same value. Two requests differ only in the values of sensitive
  headers when their header items agree one by one and the rest of the request is the
  same.
\<close>

definition header_agree :: "string \<times> string \<Rightarrow> string \<times> string \<Rightarrow> bool" where
  "header_agree x y = (fst x = fst y \<and> (sensitive (fst x) \<or> snd x = snd y))"

definition differ_only_in_sensitive_values :: "request \<Rightarrow> request \<Rightarrow> bool" where
  "differ_only_in_sensitive_values rq rq' =
     (list_all2 header_agree (headers rq) (headers rq')
      \<and> remote_addr rq = remote_addr rq' \<and> get_json rq = get_json rq')"

section \<open>Example runs\<close>

text \<open>Concrete configurations, collaborators and requests, used to evaluate the handler.\<close>

definition example_config :: config where
  "example_config =
     \<lparr>DEFAULT_MODEL = ''gpt-4o-mini'', SERVICE_NAME = ''flask-api'', ENV = ''dev'',
      PRICE_IN_PER_KTOK = Finite 1, PRICE_OUT_PER_KTOK = Finite 2,
      COST_SPLUNK_SCALE = Finite 2\<rparr>"

text \<open>Prices \<^verbatim>\<open>0.001\<close> per 1000 tokens and the scale factor \<^verbatim>\<open>0.4\<close>.\<close>

definition small_price_config :: config where
  "small_price_config =
     \<lparr>DEFAULT_MODEL = ''gpt-4o-mini'', SERVICE_NAME = ''flask-api'', ENV = ''dev'',
      PRICE_IN_PER_KTOK = to_double (1 / 1000), PRICE_OUT_PER_KTOK = to_double (1 / 1000),
      COST_SPLUNK_SCALE = to_double (4 / 10)\<rparr>"

definition example_request :: request where
  "example_request =
     \<lparr>headers = [(''Authorization'', ''Bearer x''), (''X-Custom'', ''y'')],
      remote_addr = Some ''10.0.0.1'',
      get_json = Inr \<lparr>body_userType = None, body_question = Some ''why?''\<rparr>\<rparr>"

text \<open>The same request with another bearer token.\<close>

definition other_token_request :: request where
  "other_token_request =
     \<lparr>headers = [(''Authorization'', ''Bearer z''), (''X-Custom'', ''y'')],
      remote_addr = Some ''10.0.0.1'',
      get_json = Inr \<lparr>body_userType = None, body_question = Some ''why?''\<rparr>\<rparr>"

text \<open>A request whose body is \<^verbatim>\<open>{"userType": "admin"}\<close>: no question.\<close>

definition no_question_request :: request where
  "no_question_request =
     \<lparr>headers = [(''Authorization'', ''Bearer x''), (''X-Custom'', ''y'')],
      remote_addr = Some ''10.0.0.1'',
      get_json = Inr \<lparr>body_userType = Some ''admin'', body_question = None\<rparr>\<rparr>"

text \<open>An input rate of \<^verbatim>\<open>float("inf")\<close>, which \<^verbatim>\<open>_get_float_env\<close> accepts.\<close>

definition infinite_price_config :: config where
  "infinite_price_config =
     \<lparr>DEFAULT_MODEL = ''gpt-4o-mini'', SERVICE_NAME = ''flask-api'', ENV = ''dev'',
      PRICE_IN_PER_KTOK = PosInf, PRICE_OUT_PER_KTOK = Finite 0,
      COST_SPLUNK_SCALE = Finite 1\<rparr>"

text \<open>A request whose body is not JSON: \<^verbatim>\<open>get_json\<close> raises \<^verbatim>\<open>BadRequest\<close>.\<close>

definition unparsable_request :: request where
  "unparsable_request =
     \<lparr>headers = [(''Authorization'', ''Bearer x''), (''X-Custom'', ''y'')],
      remote_addr = Some ''10.0.0.1'',
      get_json = Inl (OtherException ''400 Bad Request: Failed to decode JSON object'')\<rparr>"

definition answering_world :: "string \<Rightarrow> world" where
  "answering_world a =
     \<lparr>request_id = ''req-1'', session_id = ''sess-1'',
      create = (\<lambda>model messages metadata.
         Inr \<lparr>choices = [Some a], usage_of = Some (CompletionUsage 100 50 150)\<rparr>),
      latency_clock = (\<lambda>n. 7 + int n)\<rparr>"

definition failing_world :: "exn \<Rightarrow> world" where
  "failing_world e =
     \<lparr>request_id = ''req-1'', session_id = ''sess-1'',
      create = (\<lambda>model messages metadata. Inl e),
      latency_clock = (\<lambda>n. 7 + int n)\<rparr>"

section \<open>Facts about dictionaries\<close>

lemma dict_set_fresh: "k \<notin> fst ` set d \<Longrightarrow> dict_set d k v = d @ [(k, v)]"
  by (induction d) auto

lemma foldl_dict_set_distinct:
  "distinct (map fst (acc @ xs)) \<Longrightarrow>
   foldl (\<lambda>d (k, v). dict_set d k v) acc xs = acc @ xs"
proof (induction xs arbitrary: acc)
  case Nil
  then show ?case by simp
next
  case (Cons x xs)
  obtain k v where x: "x = (k, v)" by (cases x)
  from Cons.prems have fresh: "k \<notin> fst ` set acc" by (auto simp: x)
  from Cons.prems have "distinct (map fst ((acc @ [(k, v)]) @ xs))" by (simp add: x)
  then have "foldl (\<lambda>d (k, v). dict_set d k v) (acc @ [(k, v)]) xs = (acc @ [(k, v)]) @ xs"
    by (rule Cons.IH)
  then show ?case by (simp add: x dict_set_fresh [OF fresh])
qed

lemma dict_of_items_distinct: "distinct (map fst xs) \<Longrightarrow> dict_of_items xs = xs"
  using foldl_dict_set_distinct [of "[]" xs] by (simp add: dict_of_items_def)

lemma map_fst_scrub_items: "map fst (map (\<lambda>(k, v). (k, scrub_value k v)) d) = map fst d"
  by (induction d) auto

lemma scrub_headers_Some:
  "distinct (map fst d) \<Longrightarrow> scrub_headers (Some d) = map (\<lambda>(k, v). (k, scrub_value k v)) d"
proof -
  assume "distinct (map fst d)"
  then have "distinct (map fst (map (\<lambda>(k, v). (k, scrub_value k v)) d))"
    by (simp only: map_fst_scrub_items)
  then have "dict_of_items (map (\<lambda>(k, v). (k, scrub_value k v)) d) =
             map (\<lambda>(k, v). (k, scrub_value k v)) d"
    by (rule dict_of_items_distinct)
  then show ?thesis by (simp add: scrub_headers_def)
qed

lemma lower_redact: "s \<in> redact \<Longrightarrow> lower s = s"
  by (auto simp: redact_def lower_def ascii_lower_def)

lemma sensitive_iff: "sensitive k \<longleftrightarrow> lower k \<in> redact"
  by (auto simp: sensitive_def ci_equal_def lower_redact)

lemma scrub_value_idem: "scrub_value k (scrub_value k v) = scrub_value k v"
  by (simp add: scrub_value_def)

lemma map_of_scrub_items:
  "map_of (map (\<lambda>(k, v). (k, scrub_value k v)) d) k = map_option (scrub_value k) (map_of d k)"
  by (induction d) auto


lemma map_scrub_items_idem:
  "map (\<lambda>(k, v). (k, scrub_value k v)) (map (\<lambda>(k, v). (k, scrub_value k v)) d) =
   map (\<lambda>(k, v). (k, scrub_value k v)) d"
  by (induction d) (auto simp: scrub_value_idem)

lemma scrub_headers_lookup:
  assumes "distinct (map fst d)"
  shows "map_of (scrub_headers (Some d)) k =
         (case map_of d k of
            None \<Rightarrow> None
          | Some v \<Rightarrow> Some (if sensitive k then ''[REDACTED]'' else v))"
proof -
  have "map_of (scrub_headers (Some d)) k = map_option (scrub_value k) (map_of d k)"
    by (simp only: scrub_headers_Some [OF assms] map_of_scrub_items)
  then show ?thesis
    by (cases "map_of d k") (simp_all add: sensitive_iff scrub_value_def)
qed

lemma scrub_headers_heap_frame:
  assumes "scrub_headers_heap h hp = (r', hp')"
  shows "r' = next_ref hp"
    and "dicts hp' r' = Some (scrub_headers (Option.bind h (dicts hp)))"
    and "a < next_ref hp \<Longrightarrow> dicts hp' a = dicts hp a"
  using assms by (auto simp: scrub_headers_heap_def alloc_def)

section \<open>The redactor\<close>

text \<open>
  Claim C3. For a header dict \<open>d\<close>, \<^verbatim>\<open>_scrub_headers\<close> returns a mapping in which every key
  that case-insensitively equals one of \<^verbatim>\<open>authorization\<close>, \<^verbatim>\<open>cookie\<close>, \<^verbatim>\<open>x-api-key\<close>,
  \<^verbatim>\<open>proxy-authorization\<close> maps to the literal \<^verbatim>\<open>[REDACTED]\<close>, every other key of \<open>d\<close>
  maps to its original value, and no other key is present; an empty or absent input
  yields the empty dict; and the input is not mutated: on the store, the result is a
  new object, the input object and every other object allocated before the call hold
  what they held.
\<close>

theorem scrub_headers_redacts:
  assumes "distinct (map fst d)"
  shows "(\<forall>k. map_of (scrub_headers (Some d)) k =
               (case map_of d k of
                  None \<Rightarrow> None
                | Some v \<Rightarrow> Some (if sensitive k then ''[REDACTED]'' else v)))
       \<and> scrub_headers None = [] \<and> scrub_headers (Some []) = []
       \<and> (\<forall>hp r r' hp'. dicts hp r = Some d \<and> r < next_ref hp
              \<and> scrub_headers_heap (Some r) hp = (r', hp') \<longrightarrow>
            r' \<noteq> r \<and> dicts hp' r = Some d
            \<and> dicts hp' r' = Some (scrub_headers (Some d))
            \<and> (\<forall>a < next_ref hp. dicts hp' a = dicts hp a))"
proof (intro conjI allI impI)
  fix k
  show "map_of (scrub_headers (Some d)) k =
        (case map_of d k of
           None \<Rightarrow> None
         | Some v \<Rightarrow> Some (if sensitive k then ''[REDACTED]'' else v))"
    by (rule scrub_headers_lookup [OF assms])
next
  show "scrub_headers None = []" by (simp add: scrub_headers_def)
next
  show "scrub_headers (Some []) = []" by (simp add: scrub_headers_def)
next
  fix hp :: heap and r r' hp'
  assume h: "dicts hp r = Some d \<and> r < next_ref hp
             \<and> scrub_headers_heap (Some r) hp = (r', hp')"
  then have run: "scrub_headers_heap (Some r) hp = (r', hp')" by simp
  note frame = scrub_headers_heap_frame [OF run]
  from h frame(1) show "r' \<noteq> r" by simp
  from h frame(3) [of r] show "dicts hp' r = Some d" by simp
  from h frame(2) show "dicts hp' r' = Some (scrub_headers (Some d))" by simp
  fix a
  assume "a < next_ref hp"
  then show "dicts hp' a = dicts hp a" by (rule frame(3))
qed

theorem scrub_headers_redacts_witness:
  "distinct (map fst [(''Authorization'', ''Bearer x''), (''X-Custom'', ''y'')])
   \<and> map_of (scrub_headers (Some [(''Authorization'', ''Bearer x''), (''X-Custom'', ''y'')]))
        ''Authorization'' = Some ''[REDACTED]''
   \<and> map_of (scrub_headers (Some [(''Authorization'', ''Bearer x''), (''X-Custom'', ''y'')]))
        ''X-Custom'' = Some ''y''
   \<and> map_of (scrub_headers (Some [(''Authorization'', ''Bearer x''), (''X-Custom'', ''y'')]))
        ''Cookie'' = None
   \<and> scrub_headers (Some [(''Authorization'', ''Bearer x''), (''X-Custom'', ''y'')]) =
        [(''Authorization'', ''[REDACTED]''), (''X-Custom'', ''y'')]
   \<and> dicts (snd (scrub_headers_heap (Some 0)
        \<lparr>dicts = [0 \<mapsto> [(''Authorization'', ''Bearer x''), (''X-Custom'', ''y'')]],
         next_ref = 1\<rparr>)) 0 =
        Some [(''Authorization'', ''Bearer x''), (''X-Custom'', ''y'')]"
proof -
  let ?d = "[(''Authorization'', ''Bearer x''), (''X-Custom'', ''y'')]"
  let ?hp = "\<lparr>dicts = [0 \<mapsto> ?d], next_ref = 1\<rparr>"
  have d: "distinct (map fst ?d)" by simp
  have s1: "sensitive ''Authorization''"
    by (simp add: sensitive_iff lower_def ascii_lower_def redact_def)
  have s2: "\<not> sensitive ''X-Custom''"
    by (simp add: sensitive_iff lower_def ascii_lower_def redact_def)
  note t = scrub_headers_redacts [OF d]
  from t have look: "\<And>k. map_of (scrub_headers (Some ?d)) k =
      (case map_of ?d k of
         None \<Rightarrow> None
       | Some v \<Rightarrow> Some (if sensitive k then ''[REDACTED]'' else v))"
    by blast
  have a: "map_of (scrub_headers (Some ?d)) ''Authorization'' = Some ''[REDACTED]''"
    using look [of "''Authorization''"] s1 by simp
  have b: "map_of (scrub_headers (Some ?d)) ''X-Custom'' = Some ''y''"
    using look [of "''X-Custom''"] s2 by simp
  have c: "map_of (scrub_headers (Some ?d)) ''Cookie'' = None"
    using look [of "''Cookie''"] by simp
  have e: "scrub_headers (Some ?d) = [(''Authorization'', ''[REDACTED]''), (''X-Custom'', ''y'')]"
    by (simp add: scrub_headers_def dict_of_items_def scrub_value_def lower_def
        ascii_lower_def redact_def)
  obtain r' hp' where run: "scrub_headers_heap (Some 0) ?hp = (r', hp')"
    by (cases "scrub_headers_heap (Some 0) ?hp")
  from t have "dicts ?hp 0 = Some ?d \<and> 0 < next_ref ?hp
      \<and> scrub_headers_heap (Some 0) ?hp = (r', hp') \<longrightarrow> dicts hp' 0 = Some ?d"
    by blast
  with run have "dicts hp' 0 = Some ?d" by simp
  with run have f: "dicts (snd (scrub_headers_heap (Some 0) ?hp)) 0 = Some ?d" by simp
  from d a b c e f show ?thesis by blast
qed

text \<open>
  Claim C10. For a header dict \<open>d\<close>, the result of \<^verbatim>\<open>_scrub_headers\<close> has exactly the keys
  of \<open>d\<close>, in their original casing (and order), and scrubbing is idempotent, also from
  an absent input.
\<close>

theorem scrub_headers_keys_idempotent:
  assumes "distinct (map fst d)"
  shows "map fst (scrub_headers (Some d)) = map fst d
       \<and> scrub_headers (Some (scrub_headers (Some d))) = scrub_headers (Some d)
       \<and> scrub_headers (Some (scrub_headers None)) = scrub_headers None"
proof -
  let ?d' = "map (\<lambda>(k, v). (k, scrub_value k v)) d"
  have s: "scrub_headers (Some d) = ?d'" by (rule scrub_headers_Some [OF assms])
  have keys: "map fst ?d' = map fst d" by (rule map_fst_scrub_items)
  with assms have "distinct (map fst ?d')" by (simp only:)
  then have "scrub_headers (Some ?d') = map (\<lambda>(k, v). (k, scrub_value k v)) ?d'"
    by (rule scrub_headers_Some)
  then have idem: "scrub_headers (Some ?d') = ?d'" by (simp only: map_scrub_items_idem)
  have none: "scrub_headers (Some (scrub_headers None)) = scrub_headers None"
    by (simp add: scrub_headers_def)
  from s keys idem none show ?thesis by (simp only: simp_thms)
qed

theorem scrub_headers_keys_idempotent_witness:
  "distinct (map fst [(''COOKIE'', ''sid=1''), (''Accept'', ''*/*'')])
   \<and> map fst (scrub_headers (Some [(''COOKIE'', ''sid=1''), (''Accept'', ''*/*'')])) =
       [''COOKIE'', ''Accept'']
   \<and> scrub_headers (Some (scrub_headers (Some [(''COOKIE'', ''sid=1''), (''Accept'', ''*/*'')]))) =
       scrub_headers (Some [(''COOKIE'', ''sid=1''), (''Accept'', ''*/*'')])"
proof -
  have d: "distinct (map fst [(''COOKIE'', ''sid=1''), (''Accept'', ''*/*'')])" by simp
  from scrub_headers_keys_idempotent [OF d] d show ?thesis by simp
qed

section \<open>The paths through the handler\<close>

lemma except_block_status: "snd (except_block w e) = status_of e"
  by (cases e) simp_all

lemma status_of_not_200: "status_of e \<noteq> 200"
  by (cases e) simp_all

lemma try_block_parse_error:
  "get_json rq = Inl e \<Longrightarrow> try_block cfg w rq = ([], 500, 0, Inl e)"
  by (simp add: try_block_def)

lemma try_block_missing:
  assumes "get_json rq = Inr data"
    and "body_question data = None \<or> body_question data = Some []"
  shows "try_block cfg w rq =
         (parsed_events cfg w rq (user_type_of data) (body_question data)
            @ bad_request_events w 400 (latency_clock w 0), 400, 1,
          Inr (VDict [(''error'', VStr ''Missing 'question' in body''),
                      (''sessionId'', VStr (session_id w)),
                      (''userId'', VStr (user_type_of data))], 400))"
  using assms by (auto simp: try_block_def Let_def)

lemma try_block_llm_raised:
  assumes "get_json rq = Inr data" and "body_question data = Some q" and "q \<noteq> []"
    and "llm_block cfg w (user_type_of data) q = (llm_evs, Inl e)"
  shows "try_block cfg w rq =
         (parsed_events cfg w rq (user_type_of data) (Some q) @ llm_evs, 500, 0, Inl e)"
  using assms by (simp add: try_block_def Let_def)

lemma try_block_llm_answer:
  assumes "get_json rq = Inr data" and "body_question data = Some q" and "q \<noteq> []"
    and "llm_block cfg w (user_type_of data) q = (llm_evs, Inr answer)"
  shows "try_block cfg w rq =
         (parsed_events cfg w rq (user_type_of data) (Some q) @ llm_evs
            @ success_events w answer 200 (latency_clock w 0), 200, 1,
          Inr (VDict [(''answer'', opt_str answer),
                      (''sessionId'', VStr (session_id w)),
                      (''userId'', VStr (user_type_of data))], 200))"
  using assms by (simp add: try_block_def Let_def)

lemma ask_question_raised:
  assumes "try_block cfg w rq = (evs, sc, n, Inl e)"
  shows "ask_question cfg w rq =
         (entry_events cfg w @ evs @ fst (except_block w e)
            @ finally_block w (status_of e) n @ exit_events,
          (VDict [(''error'', VStr ''request_failed'')], status_of e))"
  using assms except_block_status [of w e]
  by (cases "except_block w e") (simp add: ask_question_def)

lemma ask_question_returned:
  assumes "try_block cfg w rq = (evs, sc, n, Inr r)"
  shows "ask_question cfg w rq =
         (entry_events cfg w @ evs @ finally_block w sc n @ exit_events, r)"
  using assms by (simp add: ask_question_def)

lemma llm_block_raised:
  "generation_body cfg w u q = (evs, r) \<Longrightarrow>
   llm_block cfg w u q =
     ([OtelStartSpan ''openai.chat.completions.create''
            [(''llm.vendor'', VStr ''openai''),
             (''llm.model'', VStr (DEFAULT_MODEL cfg)),
             (''llm.input.role.system'', VStr (system_prompt u)),
             (''lf.user_id'', VStr u),
             (''lf.session_id'', VStr (session_id w))],
          LfStartObservation
            [(''as_type'', VStr ''generation''),
             (''name'', VStr ''openai-style-generation''),
             (''model'', VStr (DEFAULT_MODEL cfg)),
             (''input'', chat_messages u q)]]
         @ evs
         @ [LfEndObservation ''openai-style-generation'' (raised r),
            OtelEndSpan ''openai.chat.completions.create'' (raised r)], r)"
  by (simp add: llm_block_def)

lemma generation_body_create_fails:
  "call_create cfg w u q = Inl e \<Longrightarrow> generation_body cfg w u q = ([], Inl e)"
  by (simp add: generation_body_def)

section \<open>What each block emits\<close>

lemma entry_exit_latency:
  "filter is_latency_observation (entry_events cfg w) = []"
  "filter is_latency_observation exit_events = []"
  by (simp_all add: entry_events_def exit_events_def)

lemma entry_exit_terminal:
  "filter is_terminal_log (entry_events cfg w) = []"
  "filter is_terminal_log exit_events = []"
  by (simp_all add: entry_events_def exit_events_def)

lemma parsed_events_quiet:
  "filter is_latency_observation (parsed_events cfg w rq u q) = []"
  "filter is_terminal_log (parsed_events cfg w rq u q) = []"
  "filter opens_generation (parsed_events cfg w rq u q) = []"
  "filter is_token_metric (parsed_events cfg w rq u q) = []"
  by (simp_all add: parsed_events_def)

lemma usage_events_quiet:
  "filter is_latency_observation (usage_events cfg w toks) = []"
  "filter is_terminal_log (usage_events cfg w toks) = []"
  by (simp_all add: usage_events_def split: prod.splits)

lemma cost_events_quiet:
  "filter is_latency_observation (cost_events cfg a toks costs) = []"
  "filter is_terminal_log (cost_events cfg a toks costs) = []"
proof -
  obtain p c t where toks: "toks = (p, c, t)" by (cases toks) auto
  obtain ic oc tc where costs: "costs = (ic, oc, tc)" by (cases costs) auto
  obtain x y z where sp: "cost_splunk cfg (ic, oc, tc) = (x, y, z)"
    by (cases "cost_splunk cfg (ic, oc, tc)") auto
  show "filter is_latency_observation (cost_events cfg a toks costs) = []"
    by (cases a) (simp_all add: cost_events_def toks costs sp)
  show "filter is_terminal_log (cost_events cfg a toks costs) = []"
    by (cases a) (simp_all add: cost_events_def toks costs sp)
qed

lemma generation_body_quiet:
  "filter is_latency_observation (fst (generation_body cfg w u q)) = []"
  "filter is_terminal_log (fst (generation_body cfg w u q)) = []"
  by (simp_all add: generation_body_def usage_events_quiet cost_events_quiet
      split: sum.splits list.splits)

lemma llm_block_quiet:
  "filter is_latency_observation (fst (llm_block cfg w u q)) = []"
  "filter is_terminal_log (fst (llm_block cfg w u q)) = []"
  using generation_body_quiet [of cfg w u q]
  by (cases "generation_body cfg w u q"; simp add: llm_block_def)+

lemma except_block_quiet:
  "filter is_latency_observation (fst (except_block w e)) = []"
  "filter is_terminal_log (fst (except_block w e)) = []"
  by (cases e; simp add: handler_events_def)+

lemma finally_block_error:
  "sc \<noteq> 200 \<Longrightarrow>
   filter is_latency_observation (finally_block w sc n) =
     [HistogramRecord ''http.server.request.duration'' (latency_clock w n)
        [(''http.route'', VStr ''/askquestion''), (''http.status_code'', VInt sc)]]"
  "sc \<noteq> 200 \<Longrightarrow>
   filter is_terminal_log (finally_block w sc n) =
     [Log ERROR ''request_error''
        [(''request.id'', VStr (request_id w)), (''http.status_code'', VInt sc),
         (''latency_ms'', VInt (latency_clock w n))] None]"
  by (simp_all add: finally_block_def)

lemma finally_block_ok: "finally_block w 200 n = []"
  by (simp add: finally_block_def)

lemma bad_request_events_obs:
  "filter is_latency_observation (bad_request_events w sc l) =
     [HistogramRecord ''http.server.request.duration'' l
        [(''http.route'', VStr ''/askquestion''), (''http.status_code'', VInt sc)]]"
  "filter is_terminal_log (bad_request_events w sc l) = []"
  "filter opens_generation (bad_request_events w sc l) = []"
  "filter is_token_metric (bad_request_events w sc l) = []"
  by (simp_all add: bad_request_events_def)

lemma success_events_obs:
  "filter is_latency_observation (success_events w a sc l) =
     [HistogramRecord ''http.server.request.duration'' l
        [(''http.route'', VStr ''/askquestion''), (''http.status_code'', VInt sc)]]"
  "filter is_terminal_log (success_events w a sc l) =
     [Log INFO ''request_success''
          [(''request.id'', VStr (request_id w)), (''http.status_code'', VInt sc),
           (''latency_ms'', VInt l)] None]"
  by (simp_all add: success_events_def split: option.splits)

lemma ask_question_missing:
  assumes "get_json rq = Inr data"
    and "body_question data = None \<or> body_question data = Some []"
  shows "ask_question cfg w rq =
         (entry_events cfg w
            @ (parsed_events cfg w rq (user_type_of data) (body_question data)
               @ bad_request_events w 400 (latency_clock w 0))
            @ finally_block w 400 1 @ exit_events,
          (VDict [(''error'', VStr ''Missing 'question' in body''),
                  (''sessionId'', VStr (session_id w)),
                  (''userId'', VStr (user_type_of data))], 400))"
  by (rule ask_question_returned [OF try_block_missing [OF assms]])


lemma ask_question_llm_raised:
  assumes "get_json rq = Inr data" and "body_question data = Some q" and "q \<noteq> []"
    and "llm_block cfg w (user_type_of data) q = (llm_evs, Inl e)"
  shows "ask_question cfg w rq =
         (entry_events cfg w
            @ (parsed_events cfg w rq (user_type_of data) (Some q) @ llm_evs)
            @ fst (except_block w e) @ finally_block w (status_of e) 0 @ exit_events,
          (VDict [(''error'', VStr ''request_failed'')], status_of e))"
  by (rule ask_question_raised [OF try_block_llm_raised [OF assms]])

lemma ask_question_llm_answer:
  assumes "get_json rq = Inr data" and "body_question data = Some q" and "q \<noteq> []"
    and "llm_block cfg w (user_type_of data) q = (llm_evs, Inr answer)"
  shows "ask_question cfg w rq =
         (entry_events cfg w
            @ (parsed_events cfg w rq (user_type_of data) (Some q) @ llm_evs
               @ success_events w answer 200 (latency_clock w 0))
            @ exit_events,
          (VDict [(''answer'', opt_str answer),
                  (''sessionId'', VStr (session_id w)),
                  (''userId'', VStr (user_type_of data))], 200))"
  using ask_question_returned [OF try_block_llm_answer [OF assms]]
  by (simp only: finally_block_ok append_Nil)

lemma ask_question_parse_error:
  assumes "get_json rq = Inl e"
  shows "ask_question cfg w rq =
         (entry_events cfg w @ [] @ fst (except_block w e) @ finally_block w (status_of e) 0
            @ exit_events,
          (VDict [(''error'', VStr ''request_failed'')], status_of e))"
  by (rule ask_question_raised [OF try_block_parse_error [OF assms]])

lemma llm_block_create_fails:
  assumes "call_create cfg w u q = Inl e"
  shows "snd (llm_block cfg w u q) = Inl e"
  by (simp add: llm_block_def generation_body_create_fails [OF assms])

text \<open>Over all paths: one terminal log event, and one observation of the latency
  histogram except where the question is missing.\<close>

lemma terminal_log_once:
  "length (filter is_terminal_log (fst (ask_question cfg w rq))) = 1"
proof (cases "get_json rq")
  case (Inl e)
  show ?thesis
    by (simp only: ask_question_parse_error [OF Inl] fst_conv filter_append entry_exit_terminal
          except_block_quiet finally_block_error(2) [OF status_of_not_200] filter.simps
          append_Nil append_Nil2)
       simp
next
  case (Inr data)
  show ?thesis
  proof (cases "body_question data = None \<or> body_question data = Some []")
    case True
    have "(400::int) \<noteq> 200" by simp
    note fin = finally_block_error(2) [OF this]
    show ?thesis
      by (simp only: ask_question_missing [OF Inr True] fst_conv filter_append
            entry_exit_terminal parsed_events_quiet bad_request_events_obs fin append_Nil
            append_Nil2)
         simp
  next
    case False
    then obtain q where q: "body_question data = Some q" "q \<noteq> []" by auto
    obtain llm_evs r where l: "llm_block cfg w (user_type_of data) q = (llm_evs, r)"
      by (cases "llm_block cfg w (user_type_of data) q")
    from llm_block_quiet(2) [of cfg w "user_type_of data" q] l
    have quiet: "filter is_terminal_log llm_evs = []" by simp
    show ?thesis
    proof (cases r)
      case (Inl e)
      with l have l': "llm_block cfg w (user_type_of data) q = (llm_evs, Inl e)" by simp
      show ?thesis
        by (simp only: ask_question_llm_raised [OF Inr q l'] fst_conv filter_append
              entry_exit_terminal parsed_events_quiet quiet except_block_quiet
              finally_block_error(2) [OF status_of_not_200] append_Nil append_Nil2)
           simp
    next
      case (Inr answer)
      with l have l': "llm_block cfg w (user_type_of data) q = (llm_evs, Inr answer)" by simp
      show ?thesis
        by (simp only: ask_question_llm_answer [OF \<open>get_json rq = Inr data\<close> q l'] fst_conv
              filter_append entry_exit_terminal parsed_events_quiet quiet success_events_obs
              append_Nil append_Nil2)
           simp
    qed
  qed
qed

lemma latency_observation_count:
  "length (filter is_latency_observation (fst (ask_question cfg w rq))) =
     (case get_json rq of
        Inl e \<Rightarrow> 1
      | Inr data \<Rightarrow>
          if body_question data = None \<or> body_question data = Some [] then 2 else 1)"
proof (cases "get_json rq")
  case (Inl e)
  show ?thesis
    by (simp only: ask_question_parse_error [OF Inl] fst_conv filter_append entry_exit_latency
          except_block_quiet finally_block_error(1) [OF status_of_not_200] filter.simps
          append_Nil append_Nil2)
       (simp add: Inl)
next
  case (Inr data)
  show ?thesis
  proof (cases "body_question data = None \<or> body_question data = Some []")
    case True
    have "(400::int) \<noteq> 200" by simp
    note fin = finally_block_error(1) [OF this]
    show ?thesis
      by (simp only: ask_question_missing [OF Inr True] fst_conv filter_append
            entry_exit_latency parsed_events_quiet bad_request_events_obs fin append_Nil
            append_Nil2)
         (use Inr True in simp)
  next
    case False
    then obtain q where q: "body_question data = Some q" "q \<noteq> []" by auto
    obtain llm_evs r where l: "llm_block cfg w (user_type_of data) q = (llm_evs, r)"
      by (cases "llm_block cfg w (user_type_of data) q")
    from llm_block_quiet(1) [of cfg w "user_type_of data" q] l
    have quiet: "filter is_latency_observation llm_evs = []" by simp
    show ?thesis
    proof (cases r)
      case (Inl e)
      with l have l': "llm_block cfg w (user_type_of data) q = (llm_evs, Inl e)" by simp
      show ?thesis
        by (simp only: ask_question_llm_raised [OF Inr q l'] fst_conv filter_append
              entry_exit_latency parsed_events_quiet quiet except_block_quiet
              finally_block_error(1) [OF status_of_not_200] append_Nil append_Nil2)
           (use \<open>get_json rq = Inr data\<close> False in simp)
    next
      case (Inr answer)
      with l have l': "llm_block cfg w (user_type_of data) q = (llm_evs, Inr answer)" by simp
      show ?thesis
        by (simp only: ask_question_llm_answer [OF \<open>get_json rq = Inr data\<close> q l'] fst_conv
              filter_append entry_exit_latency parsed_events_quiet quiet success_events_obs
              append_Nil append_Nil2)
           (use \<open>get_json rq = Inr data\<close> False in simp)
    qed
  qed
qed

section \<open>The request pipeline\<close>

text \<open>
  Claim C1, at a request without a question. The claim asks for exactly one observation
  of the latency histogram on every path. On this path the handler records the latency
  before it returns from inside the \<^verbatim>\<open>try\<close> block (line 245), and the \<^verbatim>\<open>finally\<close> block,
  which runs on that return with \<^verbatim>\<open>status_code = 400\<close>, records it again (line 416):
  two observations.
\<close>

theorem missing_question_latency_recorded_twice:
  "filter is_latency_observation
     (fst (ask_question cfg w (rq\<lparr>get_json := Inr \<lparr>body_userType = u, body_question = None\<rparr>\<rparr>))) =
   [HistogramRecord ''http.server.request.duration'' (latency_clock w 0)
      [(''http.route'', VStr ''/askquestion''), (''http.status_code'', VInt 400)],
    HistogramRecord ''http.server.request.duration'' (latency_clock w 1)
      [(''http.route'', VStr ''/askquestion''), (''http.status_code'', VInt 400)]]"
proof -
  let ?rq = "rq\<lparr>get_json := Inr \<lparr>body_userType = u, body_question = None\<rparr>\<rparr>"
  have g: "get_json ?rq = Inr \<lparr>body_userType = u, body_question = None\<rparr>" by simp
  have q: "body_question \<lparr>body_userType = u, body_question = None\<rparr> = None
           \<or> body_question \<lparr>body_userType = u, body_question = None\<rparr> = Some []" by simp
  show ?thesis
    by (simp only: ask_question_missing [OF g q] fst_conv filter_append entry_exit_latency
        parsed_events_quiet bad_request_events_obs finally_block_error(1) append_Nil append_Nil2
        append.simps)
qed

text \<open>
  Claim C2. When the inference client fails, the handler returns a response and no
  exception leaves it: status 429 for a rate-limit failure, 401 for an authentication
  failure, 502 for any other API failure and 500 for any other failure, each with the
  body \<^verbatim>\<open>{"error": "request_failed"}\<close>.
\<close>

theorem collaborator_failure_response:
  assumes "get_json rq = Inr data" and "body_question data = Some q" and "q \<noteq> []"
    and "call_create cfg w (user_type_of data) q = Inl e"
  shows "snd (ask_question cfg w rq) = (VDict [(''error'', VStr ''request_failed'')], status_of e)"
proof -
  obtain llm_evs r where l: "llm_block cfg w (user_type_of data) q = (llm_evs, r)"
    by (cases "llm_block cfg w (user_type_of data) q")
  with llm_block_create_fails [OF assms(4)] have "r = Inl e" by simp
  with l have "llm_block cfg w (user_type_of data) q = (llm_evs, Inl e)" by simp
  from ask_question_llm_raised [OF assms(1-3) this] show ?thesis by simp
qed

theorem collaborator_failure_response_witness:
  "snd (ask_question example_config (failing_world (RateLimitError ''slow down'')) example_request) =
     (VDict [(''error'', VStr ''request_failed'')], 429)
   \<and> snd (ask_question example_config (failing_world (AuthenticationError ''bad key'')) example_request) =
     (VDict [(''error'', VStr ''request_failed'')], 401)
   \<and> snd (ask_question example_config (failing_world (APIError ''boom'')) example_request) =
     (VDict [(''error'', VStr ''request_failed'')], 502)
   \<and> snd (ask_question example_config (failing_world (OtherException ''failed'')) example_request) =
     (VDict [(''error'', VStr ''request_failed'')], 500)"
proof -
  have g: "get_json example_request = Inr \<lparr>body_userType = None, body_question = Some ''why?''\<rparr>"
    by (simp add: example_request_def)
  have q: "body_question \<lparr>body_userType = None, body_question = Some ''why?''\<rparr> = Some ''why?''"
    by simp
  have n: "''why?'' \<noteq> []" by simp
  have c: "\<And>e. call_create example_config (failing_world e)
             (user_type_of \<lparr>body_userType = None, body_question = Some ''why?''\<rparr>) ''why?'' = Inl e"
    by (simp add: call_create_def failing_world_def)
  note t = collaborator_failure_response [OF g q n c]
  show ?thesis
    using t [of "RateLimitError ''slow down''"] t [of "AuthenticationError ''bad key''"]
      t [of "APIError ''boom''"] t [of "OtherException ''failed''"]
    by simp
qed

lemma except_block_opens_nothing:
  "filter opens_generation (fst (except_block w e)) = []"
  "filter is_token_metric (fst (except_block w e)) = []"
  by (cases e; simp add: handler_events_def)+

lemma finally_block_opens_nothing:
  "filter opens_generation (finally_block w sc n) = []"
  "filter is_token_metric (finally_block w sc n) = []"
  by (simp_all add: finally_block_def)

lemma entry_exit_open_nothing:
  "filter opens_generation (entry_events cfg w) = []"
  "filter is_token_metric (entry_events cfg w) = []"
  "filter opens_generation exit_events = []"
  "filter is_token_metric exit_events = []"
  by (simp_all add: entry_events_def exit_events_def)

text \<open>
  Claim C7 fails for a request whose body is not JSON: it has no \<^verbatim>\<open>question\<close> field, but
  \<^verbatim>\<open>get_json\<close> raises, the last handler catches the exception, and the response is 500
  with the body \<^verbatim>\<open>{"error": "request_failed"}\<close>, not 400.
\<close>

theorem unparsable_body_counterexample:
  "get_json unparsable_request =
     Inl (OtherException ''400 Bad Request: Failed to decode JSON object'')
   \<and> snd (ask_question example_config (answering_world ''hi'') unparsable_request) =
       (VDict [(''error'', VStr ''request_failed'')], 500)"
  by code_simp

text \<open>
  Claim C7, amended. For every request whose \<^verbatim>\<open>question\<close> field is empty or absent,
  neither span of the generation pair is opened and no token metric is emitted. When the
  body parses, the response has status 400 and the body \<^verbatim>\<open>{"error": "Missing 'question'
  in body", "sessionId": ..., "userId": ...}\<close>; when \<^verbatim>\<open>get_json\<close> raises, the response has
  the status of the handler of that exception (500 for a body that is not JSON) and the
  body \<^verbatim>\<open>{"error": "request_failed"}\<close>.
\<close>

theorem missing_question_response:
  "(get_json rq = Inr data \<and> (body_question data = None \<or> body_question data = Some []) \<longrightarrow>
      snd (ask_question cfg w rq) =
        (VDict [(''error'', VStr ''Missing 'question' in body''),
                (''sessionId'', VStr (session_id w)),
                (''userId'', VStr (user_type_of data))], 400)
    \<and> filter opens_generation (fst (ask_question cfg w rq)) = []
    \<and> filter is_token_metric (fst (ask_question cfg w rq)) = [])
   \<and> (get_json rq = Inl e \<longrightarrow>
      snd (ask_question cfg w rq) = (VDict [(''error'', VStr ''request_failed'')], status_of e)
    \<and> filter opens_generation (fst (ask_question cfg w rq)) = []
    \<and> filter is_token_metric (fst (ask_question cfg w rq)) = [])"
proof (intro conjI impI)
  assume a: "get_json rq = Inr data \<and> (body_question data = None \<or> body_question data = Some [])"
  then have g: "get_json rq = Inr data"
    and q: "body_question data = None \<or> body_question data = Some []" by simp_all
  note run = ask_question_missing [OF g q, of cfg w]
  show "snd (ask_question cfg w rq) =
        (VDict [(''error'', VStr ''Missing 'question' in body''),
                (''sessionId'', VStr (session_id w)),
                (''userId'', VStr (user_type_of data))], 400)"
    by (simp only: run snd_conv)
  show "filter opens_generation (fst (ask_question cfg w rq)) = []"
    by (simp only: run fst_conv filter_append parsed_events_quiet bad_request_events_obs
        finally_block_opens_nothing entry_exit_open_nothing append_Nil)
  show "filter is_token_metric (fst (ask_question cfg w rq)) = []"
    by (simp only: run fst_conv filter_append parsed_events_quiet bad_request_events_obs
        finally_block_opens_nothing entry_exit_open_nothing append_Nil)
next
  assume g: "get_json rq = Inl e"
  note run = ask_question_parse_error [OF g, of cfg w]
  show "snd (ask_question cfg w rq) = (VDict [(''error'', VStr ''request_failed'')], status_of e)"
    by (simp only: run snd_conv)
  show "filter opens_generation (fst (ask_question cfg w rq)) = []"
    by (simp only: run fst_conv filter_append except_block_opens_nothing
        finally_block_opens_nothing entry_exit_open_nothing filter.simps append_Nil)
  show "filter is_token_metric (fst (ask_question cfg w rq)) = []"
    by (simp only: run fst_conv filter_append except_block_opens_nothing
        finally_block_opens_nothing entry_exit_open_nothing filter.simps append_Nil)
qed

theorem missing_question_response_witness:
  "get_json no_question_request = Inr \<lparr>body_userType = Some ''admin'', body_question = None\<rparr>
   \<and> snd (ask_question example_config (answering_world ''hi'') no_question_request) =
     (VDict [(''error'', VStr ''Missing 'question' in body''),
             (''sessionId'', VStr ''sess-1''), (''userId'', VStr ''admin'')], 400)
   \<and> filter opens_generation
        (fst (ask_question example_config (answering_world ''hi'') no_question_request)) = []
   \<and> filter is_token_metric
        (fst (ask_question example_config (answering_world ''hi'') no_question_request)) = []
   \<and> get_json unparsable_request =
        Inl (OtherException ''400 Bad Request: Failed to decode JSON object'')
   \<and> snd (ask_question example_config (answering_world ''hi'') unparsable_request) =
        (VDict [(''error'', VStr ''request_failed'')], 500)
   \<and> filter opens_generation
        (fst (ask_question example_config (answering_world ''hi'') unparsable_request)) = []
   \<and> filter is_token_metric
        (fst (ask_question example_config (answering_world ''hi'') unparsable_request)) = []"
proof -
  let ?data = "\<lparr>body_userType = Some ''admin'', body_question = None\<rparr>"
  let ?e = "OtherException ''400 Bad Request: Failed to decode JSON object''"
  let ?w = "answering_world ''hi''"
  have g: "get_json no_question_request = Inr ?data"
    by (simp add: no_question_request_def)
  then have h1: "get_json no_question_request = Inr ?data
         \<and> (body_question ?data = None \<or> body_question ?data = Some [])"
    by simp
  have h2: "get_json unparsable_request = Inl ?e"
    by (simp add: unparsable_request_def)
  note a = mp [OF conjunct1 [OF missing_question_response
      [of no_question_request ?data example_config ?w]] h1]
  note b = mp [OF conjunct2 [OF missing_question_response
      [of unparsable_request _ example_config ?w ?e]] h2]
  from a have a': "snd (ask_question example_config ?w no_question_request) =
     (VDict [(''error'', VStr ''Missing 'question' in body''),
             (''sessionId'', VStr ''sess-1''), (''userId'', VStr ''admin'')], 400)
   \<and> filter opens_generation (fst (ask_question example_config ?w no_question_request)) = []
   \<and> filter is_token_metric (fst (ask_question example_config ?w no_question_request)) = []"
    by (simp add: user_type_of_def answering_world_def)
  from b have b': "snd (ask_question example_config ?w unparsable_request) =
        (VDict [(''error'', VStr ''request_failed'')], 500)
   \<and> filter opens_generation (fst (ask_question example_config ?w unparsable_request)) = []
   \<and> filter is_token_metric (fst (ask_question example_config ?w unparsable_request)) = []"
    by simp
  from g a' h2 b' show ?thesis by blast
qed

section \<open>Facts about floats and the cost computation\<close>

lemma bitlen_le_if_less: "x < 2 ^ n \<Longrightarrow> bitlen x \<le> int n"
proof (cases "0 < x")
  case True
  assume "x < 2 ^ n"
  with bitlen_bounds [OF True] have "(2::int) ^ nat (bitlen x - 1) < 2 ^ n" by linarith
  then have "nat (bitlen x - 1) < n" by simp
  then show ?thesis by linarith
next
  case False
  then have "bitlen x = 0" by (simp add: bitlen_eq_zero_iff)
  then show ?thesis by simp
qed

lemma ilog2_le:
  assumes "0 < a" and "a < 2 ^ n" and "0 < n"
  shows "ilog2 a \<le> int n - 1"
proof (cases "1 \<le> a")
  case True
  from assms(2) have "\<lfloor>a\<rfloor> < 2 ^ n"
    by (simp add: floor_less_iff)
  then have "bitlen \<lfloor>a\<rfloor> \<le> int n" by (rule bitlen_le_if_less)
  with True show ?thesis by (simp add: ilog2_def)
next
  case False
  have "0 \<le> bitlen (\<lceil>1 / a\<rceil> - 1)" by (rule bitlen_nonneg)
  with False assms(3) show ?thesis by (simp add: ilog2_def)
qed

lemma to_double_finite:
  assumes "\<bar>x\<bar> < 2 ^ 1023"
  shows "\<exists>r. to_double x = Finite r"
proof (cases "x = 0")
  case True
  then show ?thesis by (simp add: to_double_def)
next
  case False
  then have "0 < \<bar>x\<bar>" by simp
  from ilog2_le [OF this assms] have "ilog2 \<bar>x\<bar> \<le> 1022" by simp
  then have e: "max (ilog2 \<bar>x\<bar>) (- 1022) \<le> 1022" by simp
  have no_overflow:
    "\<not> (1023 < max (ilog2 \<bar>x\<bar>) (- 1022)
        \<or> (max (ilog2 \<bar>x\<bar>) (- 1022) = 1023
           \<and> 2 ^ 53 \<le> round_half_even (\<bar>x\<bar> / two_pow (max (ilog2 \<bar>x\<bar>) (- 1022) - 52))))"
    using e by linarith
  show ?thesis
    unfolding to_double_def Let_def
    by (simp only: False no_overflow if_False) blast
qed

lemma int_truediv_float_1000:
  assumes "\<bar>n\<bar> < 2 ^ 1023"
  shows "\<exists>r. to_double (of_int n) = Finite r
             \<and> int_truediv_float n (Finite 1000) = Inr (to_double (r / 1000))"
proof -
  from assms have "\<bar>(of_int n :: rat)\<bar> < 2 ^ 1023"
    by (metis of_int_abs of_int_less_numeral_power_cancel_iff)
  from to_double_finite [OF this] obtain r where "to_double (of_int n) = Finite r" ..
  then show ?thesis by (simp add: int_truediv_float_def int_to_float_def)
qed

lemma to_double_0: "to_double 0 = Finite 0"
  by (simp add: to_double_def)

lemma int_truediv_float_0: "int_truediv_float 0 (Finite 1000) = Inr (Finite 0)"
  by (simp add: int_truediv_float_def int_to_float_def to_double_0)

lemma round_half_even_0: "round_half_even 0 = 0"
  by (simp add: round_half_even_def)

lemma py_round_0: "py_round (Finite 0) 6 = Finite 0"
  by (simp add: round_half_even_0 to_double_0)

lemma compute_llm_cost_usd_zero:
  assumes "PRICE_IN_PER_KTOK cfg = Finite ri" and "PRICE_OUT_PER_KTOK cfg = Finite ro"
  shows "compute_llm_cost_usd cfg 0 0 = Inr (Finite 0, Finite 0, Finite 0)"
  by (simp add: compute_llm_cost_usd_def int_truediv_float_0 assms to_double_0
      round_half_even_0 Let_def)

lemma tenth_costs:
  "int_truediv_float 100 (Finite 1000) = Inr (to_double (1 / 10))"
  "int_truediv_float 50 (Finite 1000) = Inr (to_double (5 / 100))"
  "py_round (fmul (to_double (1 / 10)) (Finite 1)) 6 = to_double (1 / 10)"
  "py_round (fmul (to_double (5 / 100)) (Finite 2)) 6 = to_double (1 / 10)"
  "py_round (fadd (to_double (1 / 10)) (to_double (1 / 10))) 6 = to_double (2 / 10)"
  "py_round (fmul (to_double (2 / 10)) (Finite 2)) 6 = to_double (4 / 10)"
  by code_simp+

lemma compute_llm_cost_usd_example:
  assumes "PRICE_IN_PER_KTOK cfg = Finite 1" and "PRICE_OUT_PER_KTOK cfg = Finite 2"
  shows "compute_llm_cost_usd cfg 100 50 =
         Inr (to_double (1 / 10), to_double (1 / 10), to_double (2 / 10))"
  by (simp only: compute_llm_cost_usd_def assms tenth_costs sum.case Let_def)

section \<open>The cost calculator\<close>

lemma compute_llm_cost_usd_returns_iff:
  "(\<exists>costs. compute_llm_cost_usd cfg p c = Inr costs) \<longleftrightarrow>
   (\<exists>x y. int_to_float p = Inr x \<and> int_to_float c = Inr y)"
  by (auto simp: compute_llm_cost_usd_def int_truediv_float_def int_to_float_def Let_def
      split: sum.splits pyfloat.splits)

text \<open>
  Claim C4 fails outside finite rates and outside the range of a float. With the input
  rate \<^verbatim>\<open>inf\<close>, which \<^verbatim>\<open>_get_float_env\<close> accepts, the cost of no tokens is
  \<^verbatim>\<open>(nan, 0.0, nan)\<close> (\<^verbatim>\<open>0.0 * inf\<close> is \<^verbatim>\<open>nan\<close>) and not \<open>(0, 0, 0)\<close>; and for the token
  count \<open>2\<^sup>1\<^sup>0\<^sup>2\<^sup>4\<close> the computation raises \<^verbatim>\<open>OverflowError\<close> and returns no cost.
\<close>

theorem cost_with_infinite_rate_or_huge_count_counterexample:
  "compute_llm_cost_usd infinite_price_config 0 0 = Inr (NaN, Finite 0, NaN)
   \<and> compute_llm_cost_usd example_config (2 ^ 1024) 0 =
       Inl (OtherException ''int too large to convert to float'')"
  by code_simp

text \<open>
  Claim C4, amended. The cost computation returns exactly when both token counts convert
  to a float, and they do when they are not negative and below \<open>2\<^sup>1\<^sup>0\<^sup>2\<^sup>3\<close>. Whenever it
  returns, whatever the rates, it returns
  \<^verbatim>\<open>input_cost = round(p / 1000.0 * input_rate, 6)\<close>,
  \<^verbatim>\<open>output_cost = round(c / 1000.0 * output_rate, 6)\<close> and
  \<^verbatim>\<open>total_cost = round(input_cost + output_cost, 6)\<close>, in float arithmetic. For every
  pricing configuration with finite rates the cost of no tokens is \<open>(0, 0, 0)\<close>; and with
  the rates 1 and 2 per 1000 tokens the cost of 100 and 50 tokens is \<open>(0.1, 0.1, 0.2)\<close>.
\<close>

theorem compute_llm_cost_usd_rounds:
  "(compute_llm_cost_usd cfg p c = Inr (ic, oc, tc) \<longrightarrow>
      (\<exists>x y. int_truediv_float p (Finite 1000) = Inr x
           \<and> int_truediv_float c (Finite 1000) = Inr y
           \<and> ic = py_round (fmul x (PRICE_IN_PER_KTOK cfg)) 6
           \<and> oc = py_round (fmul y (PRICE_OUT_PER_KTOK cfg)) 6
           \<and> tc = py_round (fadd ic oc) 6))
   \<and> (0 \<le> p \<and> p < 2 ^ 1023 \<and> 0 \<le> c \<and> c < 2 ^ 1023 \<longrightarrow>
      (\<exists>x y. int_truediv_float p (Finite 1000) = Inr x
           \<and> int_truediv_float c (Finite 1000) = Inr y
           \<and> compute_llm_cost_usd cfg p c =
               Inr (py_round (fmul x (PRICE_IN_PER_KTOK cfg)) 6,
                    py_round (fmul y (PRICE_OUT_PER_KTOK cfg)) 6,
                    py_round (fadd (py_round (fmul x (PRICE_IN_PER_KTOK cfg)) 6)
                                   (py_round (fmul y (PRICE_OUT_PER_KTOK cfg)) 6)) 6)))
   \<and> (PRICE_IN_PER_KTOK cfg = Finite ri \<and> PRICE_OUT_PER_KTOK cfg = Finite ro \<longrightarrow>
        compute_llm_cost_usd cfg 0 0 = Inr (Finite 0, Finite 0, Finite 0))
   \<and> (PRICE_IN_PER_KTOK cfg = Finite 1 \<and> PRICE_OUT_PER_KTOK cfg = Finite 2 \<longrightarrow>
        compute_llm_cost_usd cfg 100 50 =
          Inr (to_double (1 / 10), to_double (1 / 10), to_double (2 / 10)))
   \<and> ((\<exists>costs. compute_llm_cost_usd cfg p c = Inr costs) \<longleftrightarrow>
        (\<exists>x y. int_to_float p = Inr x \<and> int_to_float c = Inr y))"
proof (intro conjI impI)
  show "(\<exists>costs. compute_llm_cost_usd cfg p c = Inr costs) \<longleftrightarrow>
        (\<exists>x y. int_to_float p = Inr x \<and> int_to_float c = Inr y)"
    by (rule compute_llm_cost_usd_returns_iff)
next
  assume "compute_llm_cost_usd cfg p c = Inr (ic, oc, tc)"
  then show "\<exists>x y. int_truediv_float p (Finite 1000) = Inr x
           \<and> int_truediv_float c (Finite 1000) = Inr y
           \<and> ic = py_round (fmul x (PRICE_IN_PER_KTOK cfg)) 6
           \<and> oc = py_round (fmul y (PRICE_OUT_PER_KTOK cfg)) 6
           \<and> tc = py_round (fadd ic oc) 6"
    by (auto simp: compute_llm_cost_usd_def Let_def split: sum.splits)
next
  assume "0 \<le> p \<and> p < 2 ^ 1023 \<and> 0 \<le> c \<and> c < 2 ^ 1023"
  then have p: "\<bar>p\<bar> < 2 ^ 1023" and c: "\<bar>c\<bar> < 2 ^ 1023" by simp_all
  from int_truediv_float_1000 [OF p] obtain x
    where x: "int_truediv_float p (Finite 1000) = Inr x" by blast
  from int_truediv_float_1000 [OF c] obtain y
    where y: "int_truediv_float c (Finite 1000) = Inr y" by blast
  have "compute_llm_cost_usd cfg p c =
          Inr (py_round (fmul x (PRICE_IN_PER_KTOK cfg)) 6,
               py_round (fmul y (PRICE_OUT_PER_KTOK cfg)) 6,
               py_round (fadd (py_round (fmul x (PRICE_IN_PER_KTOK cfg)) 6)
                              (py_round (fmul y (PRICE_OUT_PER_KTOK cfg)) 6)) 6)"
    by (simp only: compute_llm_cost_usd_def x y sum.case Let_def)
  with x y show "\<exists>x y. int_truediv_float p (Finite 1000) = Inr x
           \<and> int_truediv_float c (Finite 1000) = Inr y
           \<and> compute_llm_cost_usd cfg p c =
               Inr (py_round (fmul x (PRICE_IN_PER_KTOK cfg)) 6,
                    py_round (fmul y (PRICE_OUT_PER_KTOK cfg)) 6,
                    py_round (fadd (py_round (fmul x (PRICE_IN_PER_KTOK cfg)) 6)
                                   (py_round (fmul y (PRICE_OUT_PER_KTOK cfg)) 6)) 6)"
    by blast
next
  assume "PRICE_IN_PER_KTOK cfg = Finite ri \<and> PRICE_OUT_PER_KTOK cfg = Finite ro"
  then show "compute_llm_cost_usd cfg 0 0 = Inr (Finite 0, Finite 0, Finite 0)"
    by (simp add: compute_llm_cost_usd_zero)
next
  assume "PRICE_IN_PER_KTOK cfg = Finite 1 \<and> PRICE_OUT_PER_KTOK cfg = Finite 2"
  then show "compute_llm_cost_usd cfg 100 50 =
          Inr (to_double (1 / 10), to_double (1 / 10), to_double (2 / 10))"
    by (simp only: compute_llm_cost_usd_example)
qed

theorem compute_llm_cost_usd_rounds_witness:
  "(0::int) \<le> 100 \<and> (100::int) < 2 ^ 1023 \<and> (0::int) \<le> 50 \<and> (50::int) < 2 ^ 1023
   \<and> PRICE_IN_PER_KTOK example_config = Finite 1
   \<and> PRICE_OUT_PER_KTOK example_config = Finite 2
   \<and> (\<exists>x y. int_truediv_float 100 (Finite 1000) = Inr x
          \<and> int_truediv_float 50 (Finite 1000) = Inr y
          \<and> compute_llm_cost_usd example_config 100 50 =
               Inr (py_round (fmul x (PRICE_IN_PER_KTOK example_config)) 6,
                    py_round (fmul y (PRICE_OUT_PER_KTOK example_config)) 6,
                    py_round (fadd (py_round (fmul x (PRICE_IN_PER_KTOK example_config)) 6)
                                   (py_round (fmul y (PRICE_OUT_PER_KTOK example_config)) 6)) 6))
   \<and> compute_llm_cost_usd example_config 0 0 = Inr (Finite 0, Finite 0, Finite 0)
   \<and> compute_llm_cost_usd example_config 100 50 =
        Inr (to_double (1 / 10), to_double (1 / 10), to_double (2 / 10))
   \<and> to_double (2 / 10) = py_round (fadd (to_double (1 / 10)) (to_double (1 / 10))) 6"
proof -
  have r: "PRICE_IN_PER_KTOK example_config = Finite 1
           \<and> PRICE_OUT_PER_KTOK example_config = Finite 2"
    by (simp add: example_config_def)
  have b: "(0::int) \<le> 100 \<and> (100::int) < 2 ^ 1023 \<and> (0::int) \<le> 50 \<and> (50::int) < 2 ^ 1023"
    by simp
  note t0 = compute_llm_cost_usd_rounds
    [of example_config 100 50 "to_double (1 / 10)" "to_double (1 / 10)" "to_double (2 / 10)" 1 2]
  note t = conjunct2 [OF t0]
  from t0 have t4: "compute_llm_cost_usd example_config 100 50 =
          Inr (to_double (1 / 10), to_double (1 / 10), to_double (2 / 10)) \<longrightarrow>
      (\<exists>x y. int_truediv_float 100 (Finite 1000) = Inr x
           \<and> int_truediv_float 50 (Finite 1000) = Inr y
           \<and> to_double (1 / 10) = py_round (fmul x (PRICE_IN_PER_KTOK example_config)) 6
           \<and> to_double (1 / 10) = py_round (fmul y (PRICE_OUT_PER_KTOK example_config)) 6
           \<and> to_double (2 / 10) = py_round (fadd (to_double (1 / 10)) (to_double (1 / 10))) 6)"
    by (rule conjunct1)
  from t have t1: "0 \<le> (100::int) \<and> (100::int) < 2 ^ 1023 \<and> 0 \<le> (50::int) \<and> (50::int) < 2 ^ 1023 \<longrightarrow>
      (\<exists>x y. int_truediv_float 100 (Finite 1000) = Inr x
          \<and> int_truediv_float 50 (Finite 1000) = Inr y
          \<and> compute_llm_cost_usd example_config 100 50 =
               Inr (py_round (fmul x (PRICE_IN_PER_KTOK example_config)) 6,
                    py_round (fmul y (PRICE_OUT_PER_KTOK example_config)) 6,
                    py_round (fadd (py_round (fmul x (PRICE_IN_PER_KTOK example_config)) 6)
                                   (py_round (fmul y (PRICE_OUT_PER_KTOK example_config)) 6)) 6))"
    by (rule conjunct1)
  from t have t2: "PRICE_IN_PER_KTOK example_config = Finite 1
       \<and> PRICE_OUT_PER_KTOK example_config = Finite 2 \<longrightarrow>
        compute_llm_cost_usd example_config 0 0 = Inr (Finite 0, Finite 0, Finite 0)"
    by (rule conjunct1 [OF conjunct2])
  from t have t3: "PRICE_IN_PER_KTOK example_config = Finite 1
       \<and> PRICE_OUT_PER_KTOK example_config = Finite 2 \<longrightarrow>
        compute_llm_cost_usd example_config 100 50 =
          Inr (to_double (1 / 10), to_double (1 / 10), to_double (2 / 10))"
    by (rule conjunct1 [OF conjunct2 [OF conjunct2]])
  note e = mp [OF t3 r]
  from b r mp [OF t1 b] mp [OF t2 r] e mp [OF t4 e] show ?thesis by blast
qed

text \<open>
  Claim C5 fails for the scaled breakdown: with the prices \<^verbatim>\<open>0.001\<close> per 1000 tokens, one
  prompt token and one completion token cost \<^verbatim>\<open>(1e-06, 1e-06, 2e-06)\<close>; scaled by
  \<^verbatim>\<open>0.4\<close> this becomes \<^verbatim>\<open>(0.0, 0.0, 1e-06)\<close>, whose total is not the sum of its input and
  output terms.
\<close>

theorem scaled_total_is_not_the_sum_counterexample:
  "compute_llm_cost_usd small_price_config 1 1 =
     Inr (to_double (1 / 1000000), to_double (1 / 1000000), to_double (2 / 1000000))
   \<and> cost_splunk small_price_config
        (to_double (1 / 1000000), to_double (1 / 1000000), to_double (2 / 1000000)) =
       (Finite 0, Finite 0, to_double (1 / 1000000))
   \<and> fadd (Finite 0) (Finite 0) \<noteq> to_double (1 / 1000000)"
  by code_simp

text \<open>
  Claim C5, amended. The scaled breakdown is obtained by multiplying each of the three
  terms of the breakdown by the scale factor and rounding each product to 6 decimal
  digits; its total is the rounded scaled total. With the scale factor 2.0 applied to
  \<open>(0.1, 0.1, 0.2)\<close> the scaled total is \<open>0.4\<close>.
\<close>

theorem cost_splunk_rounds_each_term:
  "cost_splunk cfg (in_cost, out_cost, total_cost) =
     (py_round (fmul in_cost (COST_SPLUNK_SCALE cfg)) 6,
      py_round (fmul out_cost (COST_SPLUNK_SCALE cfg)) 6,
      py_round (fmul total_cost (COST_SPLUNK_SCALE cfg)) 6)
   \<and> (COST_SPLUNK_SCALE cfg = Finite 2 \<longrightarrow>
        snd (snd (cost_splunk cfg (to_double (1 / 10), to_double (1 / 10), to_double (2 / 10)))) =
          to_double (4 / 10))"
proof (intro conjI impI)
  show "cost_splunk cfg (in_cost, out_cost, total_cost) =
     (py_round (fmul in_cost (COST_SPLUNK_SCALE cfg)) 6,
      py_round (fmul out_cost (COST_SPLUNK_SCALE cfg)) 6,
      py_round (fmul total_cost (COST_SPLUNK_SCALE cfg)) 6)"
    by (simp only: cost_splunk_def prod.case)
next
  assume "COST_SPLUNK_SCALE cfg = Finite 2"
  then show "snd (snd (cost_splunk cfg (to_double (1 / 10), to_double (1 / 10), to_double (2 / 10)))) =
          to_double (4 / 10)"
    by (simp only: cost_splunk_def prod.case snd_conv tenth_costs)
qed

theorem cost_splunk_rounds_each_term_witness:
  "COST_SPLUNK_SCALE example_config = Finite 2
   \<and> snd (snd (cost_splunk example_config
        (to_double (1 / 10), to_double (1 / 10), to_double (2 / 10)))) = to_double (4 / 10)"
proof -
  have s: "COST_SPLUNK_SCALE example_config = Finite 2" by (simp add: example_config_def)
  from cost_splunk_rounds_each_term [of example_config]
  have "COST_SPLUNK_SCALE example_config = Finite 2 \<longrightarrow>
        snd (snd (cost_splunk example_config
          (to_double (1 / 10), to_double (1 / 10), to_double (2 / 10)))) = to_double (4 / 10)"
    by (rule conjunct2)
  from s mp [OF this s] show ?thesis by (rule conjI)
qed

section \<open>Secrets in telemetry\<close>

lemma keys_dict_set: "set (map fst (dict_set d k v)) = insert k (set (map fst d))"
proof (induction d)
  case Nil
  then show ?case by simp
next
  case (Cons x d)
  obtain k' v' where x: "x = (k', v')" by (cases x)
  show ?case
  proof (cases "k' = k")
    case True
    then show ?thesis by (simp add: x)
  next
    case False
    with Cons.IH show ?thesis by (simp add: x insert_commute)
  qed
qed

lemma distinct_dict_set: "distinct (map fst d) \<Longrightarrow> distinct (map fst (dict_set d k v))"
proof (induction d)
  case Nil
  then show ?case by simp
next
  case (Cons x d)
  obtain k' v' where x: "x = (k', v')" by (cases x)
  from Cons show ?case
    using keys_dict_set [of d k v] by (auto simp: x)
qed

lemma distinct_foldl_dict_set:
  "distinct (map fst acc) \<Longrightarrow>
   distinct (map fst (foldl (\<lambda>d (k, v). dict_set d k v) acc xs))"
proof (induction xs arbitrary: acc)
  case Nil
  then show ?case by simp
next
  case (Cons x xs)
  obtain k v where x: "x = (k, v)" by (cases x)
  from Cons.prems have "distinct (map fst (dict_set acc k v))" by (rule distinct_dict_set)
  then show ?case using Cons.IH by (simp add: x)
qed

lemma distinct_dict_of_items: "distinct (map fst (dict_of_items xs))"
  using distinct_foldl_dict_set [of "[]" xs] by (simp add: dict_of_items_def)

lemma dict_set_agree:
  assumes "list_all2 header_agree d d'" and "sensitive k \<or> v = v'"
  shows "list_all2 header_agree (dict_set d k v) (dict_set d' k v')"
  using assms(1)
proof (induction rule: list_all2_induct)
  case Nil
  from assms(2) show ?case by (simp add: header_agree_def)
next
  case (Cons x xs y ys)
  obtain k1 v1 where x: "x = (k1, v1)" by (cases x)
  obtain k2 v2 where y: "y = (k2, v2)" by (cases y)
  from Cons.hyps(1) have k: "k2 = k1" by (simp add: header_agree_def x y)
  show ?case
  proof (cases "k1 = k")
    case True
    with Cons.hyps(2) assms(2) show ?thesis
      by (simp add: x y k) (simp add: header_agree_def)
  next
    case False
    with Cons.hyps(1) Cons.IH show ?thesis by (simp add: x y k)
  qed
qed

lemma foldl_dict_set_agree:
  assumes "list_all2 header_agree hs hs'"
  shows "list_all2 header_agree acc acc' \<Longrightarrow>
         list_all2 header_agree (foldl (\<lambda>d (k, v). dict_set d k v) acc hs)
                                (foldl (\<lambda>d (k, v). dict_set d k v) acc' hs')"
  using assms
proof (induction hs hs' arbitrary: acc acc' rule: list_all2_induct)
  case Nil
  then show ?case by simp
next
  case (Cons x xs y ys)
  obtain k1 v1 where x: "x = (k1, v1)" by (cases x)
  obtain k2 v2 where y: "y = (k2, v2)" by (cases y)
  from Cons.hyps(1) have k: "k2 = k1" and v: "sensitive k1 \<or> v1 = v2"
    by (auto simp: header_agree_def x y)
  from dict_set_agree [OF Cons.prems v]
  have "list_all2 header_agree (dict_set acc k1 v1) (dict_set acc' k1 v2)" .
  from Cons.IH [OF this] show ?case by (simp add: x y k)
qed

lemma dict_of_items_agree:
  "list_all2 header_agree hs hs' \<Longrightarrow>
   list_all2 header_agree (dict_of_items hs) (dict_of_items hs')"
  using foldl_dict_set_agree [of hs hs' "[]" "[]"] by (simp add: dict_of_items_def)

lemma scrub_items_agree:
  "list_all2 header_agree d d' \<Longrightarrow>
   map (\<lambda>(k, v). (k, scrub_value k v)) d = map (\<lambda>(k, v). (k, scrub_value k v)) d'"
proof (induction rule: list_all2_induct)
  case Nil
  then show ?case by simp
next
  case (Cons x xs y ys)
  obtain k1 v1 where x: "x = (k1, v1)" by (cases x)
  obtain k2 v2 where y: "y = (k2, v2)" by (cases y)
  from Cons.hyps(1) have "k2 = k1" and "scrub_value k1 v1 = scrub_value k1 v2"
    by (auto simp: header_agree_def x y scrub_value_def sensitive_iff)
  with Cons.IH show ?case by (simp add: x y)
qed

lemma scrub_headers_agree:
  assumes "list_all2 header_agree hs hs'"
  shows "scrub_headers (Some (dict_of_items hs)) = scrub_headers (Some (dict_of_items hs'))"
  by (simp only: scrub_headers_Some [OF distinct_dict_of_items]
      scrub_items_agree [OF dict_of_items_agree [OF assms]])

lemma headers_get_agree:
  assumes "list_all2 header_agree hs hs'" and "\<not> sensitive name"
  shows "headers_get hs name dflt = headers_get hs' name dflt"
  using assms(1)
proof (induction rule: list_all2_induct)
  case Nil
  then show ?case by simp
next
  case (Cons x xs y ys)
  obtain k1 v1 where x: "x = (k1, v1)" by (cases x)
  obtain k2 v2 where y: "y = (k2, v2)" by (cases y)
  from Cons.hyps(1) have k: "k2 = k1" and v: "sensitive k1 \<or> v1 = v2"
    by (auto simp: header_agree_def x y)
  show ?case
  proof (cases "lower k1 = lower name")
    case True
    with assms(2) have "\<not> sensitive k1" by (simp add: sensitive_iff)
    with v True show ?thesis by (simp add: x y k)
  next
    case False
    with Cons.IH show ?thesis by (simp add: x y k)
  qed
qed

lemma forwarded_for_not_sensitive: "\<not> sensitive ''X-Forwarded-For''"
  by (simp add: sensitive_iff lower_def ascii_lower_def redact_def)

lemma scrubbed_sensitive_values:
  assumes "(k, v) \<in> set (scrub_headers (Some (dict_of_items hs)))" and "sensitive k"
  shows "v = ''[REDACTED]''"
proof -
  from assms(1) have "(k, v) \<in> set (map (\<lambda>(k, v). (k, scrub_value k v)) (dict_of_items hs))"
    by (simp only: scrub_headers_Some [OF distinct_dict_of_items])
  then obtain v0 where "v = scrub_value k v0" by auto
  with assms(2) show ?thesis by (simp add: scrub_value_def sensitive_iff)
qed

lemma parsed_events_agree:
  assumes "differ_only_in_sensitive_values rq rq'"
  shows "parsed_events cfg w rq u q = parsed_events cfg w rq' u q"
proof -
  from assms have h: "list_all2 header_agree (headers rq) (headers rq')"
    and r: "remote_addr rq = remote_addr rq'"
    by (simp_all add: differ_only_in_sensitive_values_def)
  show ?thesis
    by (simp only: parsed_events_def scrub_headers_agree [OF h] r
        headers_get_agree [OF h forwarded_for_not_sensitive])
qed

text \<open>
  Claim C9. Two runs of the handler that are identical except for the values of headers
  whose keys are, whatever the case, \<^verbatim>\<open>authorization\<close>, \<^verbatim>\<open>cookie\<close>, \<^verbatim>\<open>x-api-key\<close> or
  \<^verbatim>\<open>proxy-authorization\<close> emit the same telemetry calls (and give the same response), on
  every path; and in the header dict that is attached, every value under such a key is
  the literal \<^verbatim>\<open>[REDACTED]\<close>.
\<close>

theorem sensitive_header_values_stay_out_of_telemetry:
  assumes "differ_only_in_sensitive_values rq rq'"
  shows "ask_question cfg w rq = ask_question cfg w rq'
       \<and> (\<forall>k v. (k, v) \<in> set (scrub_headers (Some (dict_of_items (headers rq)))) \<and> sensitive k
             \<longrightarrow> v = ''[REDACTED]'')"
proof (intro conjI allI impI)
  from assms have g: "get_json rq = get_json rq'"
    by (simp add: differ_only_in_sensitive_values_def)
  have "try_block cfg w rq = try_block cfg w rq'"
    by (simp only: try_block_def g parsed_events_agree [OF assms])
  then show "ask_question cfg w rq = ask_question cfg w rq'"
    by (simp only: ask_question_def)
next
  fix k v
  assume "(k, v) \<in> set (scrub_headers (Some (dict_of_items (headers rq)))) \<and> sensitive k"
  then show "v = ''[REDACTED]''" using scrubbed_sensitive_values by blast
qed

theorem sensitive_header_values_stay_out_of_telemetry_witness:
  "differ_only_in_sensitive_values example_request other_token_request
   \<and> headers example_request \<noteq> headers other_token_request
   \<and> ask_question example_config (answering_world ''hi'') example_request =
       ask_question example_config (answering_world ''hi'') other_token_request
   \<and> ask_question example_config (failing_world (APIError ''boom'')) example_request =
       ask_question example_config (failing_world (APIError ''boom'')) other_token_request"
proof -
  have s: "sensitive ''Authorization''"
    by (simp add: sensitive_iff lower_def ascii_lower_def redact_def)
  have d: "differ_only_in_sensitive_values example_request other_token_request"
    by (simp add: differ_only_in_sensitive_values_def example_request_def other_token_request_def
        header_agree_def s)
  have n: "headers example_request \<noteq> headers other_token_request"
    by (simp add: example_request_def other_token_request_def)
  from sensitive_header_values_stay_out_of_telemetry [OF d] d n show ?thesis by blast
qed

section \<open>Error marking and finalization\<close>

lemma except_block_events:
  "fst (except_block w e) =
     [Log ERROR (case e of RateLimitError _ \<Rightarrow> ''openai_rate_limited''
                 | AuthenticationError _ \<Rightarrow> ''openai_auth_error''
                 | APIError _ \<Rightarrow> ''openai_api_error''
                 | OtherException _ \<Rightarrow> ''unhandled_exception'')
        [(''request.id'', VStr (request_id w))] (Some e),
      LfUpdateCurrentSpan
        [(''output'', VDict [(''error'', VStr (error_tag e)), (''detail'', VStr (error_detail e))]),
         (''metadata'', VDict [(''status'', VStr (langfuse_status e)),
                               (''http_status'', VInt (status_of e))])],
      LfUpdateCurrentTrace
        [(''metadata'', VDict [(''error'', VBool True), (''error.type'', VStr (exception_class e))])]]"
  by (cases e) (simp_all add: handler_events_def)

lemma finally_block_marks_error:
  assumes "sc \<noteq> 200"
  shows "SetAttribute current_span ''error'' (VBool True) \<in> set (finally_block w sc n)"
    and "SetAttribute current_span ''error.status_code'' (VInt sc) \<in> set (finally_block w sc n)"
  using assms by (simp_all add: finally_block_def)

lemma bad_request_events_mark_error:
  "SetAttribute root_span ''error'' (VBool True) \<in> set (bad_request_events w sc l)"
  "SetAttribute root_span ''error.type'' (VStr ''bad_request'') \<in> set (bad_request_events w sc l)"
  "LfUpdateCurrentSpan
     [(''metadata'',
         VDict [(''status'', VStr ''bad_request''), (''http_status'', VInt sc),
                (''latency_ms'', VInt l)])] \<in> set (bad_request_events w sc l)"
  by (simp_all add: bad_request_events_def)

lemma no_error_type_entry_exit:
  "filter sets_error_type (entry_events cfg w) = []"
  "filter sets_error_type exit_events = []"
  by (simp_all add: entry_events_def exit_events_def)

lemma no_error_type_parsed: "filter sets_error_type (parsed_events cfg w rq u q) = []"
  by (simp add: parsed_events_def)

lemma no_error_type_usage: "filter sets_error_type (usage_events cfg w toks) = []"
  by (simp add: usage_events_def split: prod.splits)

lemma no_error_type_cost: "filter sets_error_type (cost_events cfg a toks costs) = []"
proof -
  obtain p c t where toks: "toks = (p, c, t)" by (cases toks) auto
  obtain ic oc tc where costs: "costs = (ic, oc, tc)" by (cases costs) auto
  obtain x y z where sp: "cost_splunk cfg (ic, oc, tc) = (x, y, z)"
    by (cases "cost_splunk cfg (ic, oc, tc)") auto
  show ?thesis
    by (cases a) (simp_all add: cost_events_def toks costs sp)
qed

lemma no_error_type_generation_body:
  "filter sets_error_type (fst (generation_body cfg w u q)) = []"
  by (simp add: generation_body_def no_error_type_usage no_error_type_cost
      split: sum.splits list.splits)

lemma no_error_type_llm_block: "filter sets_error_type (fst (llm_block cfg w u q)) = []"
  using no_error_type_generation_body [of cfg w u q]
  by (cases "generation_body cfg w u q") (simp add: llm_block_def)

lemma no_error_type_except_finally:
  "filter sets_error_type (fst (except_block w e)) = []"
  "filter sets_error_type (finally_block w sc n) = []"
  by (simp_all add: except_block_events finally_block_def)

lemma no_error_type_when_raised:
  assumes "try_block cfg w rq = (evs, sc, n, Inl e)"
  shows "filter sets_error_type evs = []"
proof (cases "get_json rq")
  case (Inl e')
  from assms show ?thesis by (simp add: try_block_parse_error [OF Inl])
next
  case (Inr data)
  show ?thesis
  proof (cases "body_question data = None \<or> body_question data = Some []")
    case True
    from assms show ?thesis by (simp add: try_block_missing [OF Inr True])
  next
    case False
    then obtain q where q: "body_question data = Some q" "q \<noteq> []" by auto
    obtain llm_evs r where l: "llm_block cfg w (user_type_of data) q = (llm_evs, r)"
      by (cases "llm_block cfg w (user_type_of data) q")
    from no_error_type_llm_block [of cfg w "user_type_of data" q] l
    have quiet: "filter sets_error_type llm_evs = []" by simp
    show ?thesis
    proof (cases r)
      case (Inl e')
      with l have l': "llm_block cfg w (user_type_of data) q = (llm_evs, Inl e')" by simp
      from assms have "evs = parsed_events cfg w rq (user_type_of data) (Some q) @ llm_evs"
        by (simp add: try_block_llm_raised [OF \<open>get_json rq = Inr data\<close> q l'])
      then show ?thesis by (simp only: filter_append no_error_type_parsed quiet append_Nil)
    next
      case (Inr answer)
      with l have l': "llm_block cfg w (user_type_of data) q = (llm_evs, Inr answer)" by simp
      from assms show ?thesis
        by (simp add: try_block_llm_answer [OF \<open>get_json rq = Inr data\<close> q l'])
    qed
  qed
qed

text \<open>
  Claim C6 fails, at three points. After a rate-limit failure no attribute with the value
  \<^verbatim>\<open>rate_limit\<close> is written to any OpenTelemetry span, under any key, and no call on the
  Langfuse span carries \<^verbatim>\<open>error = True\<close>; and for a request without a question no call on
  the Langfuse span or trace carries \<^verbatim>\<open>error = True\<close>.
\<close>

theorem error_marks_missing_counterexample:
  "snd (ask_question example_config (failing_world (RateLimitError ''slow down'')) example_request) =
     (VDict [(''error'', VStr ''request_failed'')], 429)
   \<and> filter (sets_value (VStr ''rate_limit''))
        (fst (ask_question example_config (failing_world (RateLimitError ''slow down''))
          example_request)) = []
   \<and> filter langfuse_span_error_flag
        (fst (ask_question example_config (failing_world (RateLimitError ''slow down''))
          example_request)) = []
   \<and> snd (snd (ask_question example_config (answering_world ''hi'') no_question_request)) = 400
   \<and> filter langfuse_error_flag
        (fst (ask_question example_config (answering_world ''hi'') no_question_request)) = []"
  by code_simp

text \<open>
  Claim C6, amended. On every failure branch (bad request, rate limit, authentication
  failure, API failure, any other failure) the handler sets \<^verbatim>\<open>error = True\<close> and
  \<^verbatim>\<open>error.status_code\<close> on the current OpenTelemetry span. On the bad-request branch the
  tag \<^verbatim>\<open>bad_request\<close> is written to the OpenTelemetry root span as \<^verbatim>\<open>error.type\<close>, next to
  \<^verbatim>\<open>error = True\<close>, and to the Langfuse span as the \<^verbatim>\<open>status\<close> of its metadata. When the
  \<^verbatim>\<open>try\<close> block raises, the branch's tag (\<^verbatim>\<open>rate_limit\<close>, \<^verbatim>\<open>auth_error\<close>,
  \<^verbatim>\<open>openai_api_error\<close>, \<^verbatim>\<open>server_error\<close>) is written to the Langfuse span, as the \<^verbatim>\<open>error\<close>
  of its output, no \<^verbatim>\<open>error.type\<close> attribute is written to any OpenTelemetry span in the
  whole request, and \<^verbatim>\<open>error = True\<close> is written to the metadata of the Langfuse trace.
\<close>

theorem failure_branches_mark_the_error:
  "(snd (snd (snd (try_block cfg w rq))) = Inl e \<longrightarrow>
      SetAttribute current_span ''error'' (VBool True) \<in> set (fst (ask_question cfg w rq))
    \<and> SetAttribute current_span ''error.status_code'' (VInt (status_of e))
        \<in> set (fst (ask_question cfg w rq))
    \<and> LfUpdateCurrentSpan
        [(''output'', VDict [(''error'', VStr (error_tag e)), (''detail'', VStr (error_detail e))]),
         (''metadata'', VDict [(''status'', VStr (langfuse_status e)),
                               (''http_status'', VInt (status_of e))])]
        \<in> set (fst (ask_question cfg w rq))
    \<and> LfUpdateCurrentTrace
        [(''metadata'', VDict [(''error'', VBool True), (''error.type'', VStr (exception_class e))])]
        \<in> set (fst (ask_question cfg w rq))
    \<and> filter sets_error_type (fst (ask_question cfg w rq)) = [])
   \<and> (get_json rq = Inr data \<and> (body_question data = None \<or> body_question data = Some []) \<longrightarrow>
      SetAttribute current_span ''error'' (VBool True) \<in> set (fst (ask_question cfg w rq))
    \<and> SetAttribute current_span ''error.status_code'' (VInt 400)
        \<in> set (fst (ask_question cfg w rq))
    \<and> SetAttribute root_span ''error'' (VBool True) \<in> set (fst (ask_question cfg w rq))
    \<and> SetAttribute root_span ''error.type'' (VStr ''bad_request'')
        \<in> set (fst (ask_question cfg w rq))
    \<and> LfUpdateCurrentSpan
        [(''metadata'',
            VDict [(''status'', VStr ''bad_request''), (''http_status'', VInt 400),
                   (''latency_ms'', VInt (latency_clock w 0))])]
        \<in> set (fst (ask_question cfg w rq)))"
proof (intro conjI impI)
  assume "snd (snd (snd (try_block cfg w rq))) = Inl e"
  then obtain evs sc n where t: "try_block cfg w rq = (evs, sc, n, Inl e)"
    by (cases "try_block cfg w rq") auto
  have evs: "fst (ask_question cfg w rq) =
      entry_events cfg w @ evs @ fst (except_block w e) @ finally_block w (status_of e) n
        @ exit_events"
    by (simp only: ask_question_raised [OF t] fst_conv)
  note fin = finally_block_marks_error [where w = w and n = n, OF status_of_not_200 [of e]]
  from fin(1) show "SetAttribute current_span ''error'' (VBool True) \<in> set (fst (ask_question cfg w rq))"
    by (simp only: evs set_append Un_iff simp_thms)
  from fin(2) show "SetAttribute current_span ''error.status_code'' (VInt (status_of e))
        \<in> set (fst (ask_question cfg w rq))"
    by (simp only: evs set_append Un_iff simp_thms)
  show "LfUpdateCurrentSpan
        [(''output'', VDict [(''error'', VStr (error_tag e)), (''detail'', VStr (error_detail e))]),
         (''metadata'', VDict [(''status'', VStr (langfuse_status e)),
                               (''http_status'', VInt (status_of e))])]
        \<in> set (fst (ask_question cfg w rq))"
    by (simp only: evs set_append Un_iff except_block_events list.set insert_iff simp_thms)
  show "LfUpdateCurrentTrace
        [(''metadata'', VDict [(''error'', VBool True), (''error.type'', VStr (exception_class e))])]
        \<in> set (fst (ask_question cfg w rq))"
    by (simp only: evs set_append Un_iff except_block_events list.set insert_iff simp_thms)
  show "filter sets_error_type (fst (ask_question cfg w rq)) = []"
    by (simp only: evs filter_append no_error_type_entry_exit no_error_type_when_raised [OF t]
        no_error_type_except_finally append_Nil)
next
  assume a: "get_json rq = Inr data \<and> (body_question data = None \<or> body_question data = Some [])"
  then have g: "get_json rq = Inr data"
    and q: "body_question data = None \<or> body_question data = Some []" by simp_all
  have evs: "fst (ask_question cfg w rq) =
      entry_events cfg w
        @ (parsed_events cfg w rq (user_type_of data) (body_question data)
           @ bad_request_events w 400 (latency_clock w 0))
        @ finally_block w 400 1 @ exit_events"
    by (simp only: ask_question_missing [OF g q] fst_conv)
  have "(400::int) \<noteq> 200" by simp
  note fin = finally_block_marks_error [where w = w and n = 1, OF this]
  note bad = bad_request_events_mark_error [where w = w and sc = 400 and l = "latency_clock w 0"]
  from fin(1) show "SetAttribute current_span ''error'' (VBool True) \<in> set (fst (ask_question cfg w rq))"
    by (simp only: evs set_append Un_iff simp_thms)
  from fin(2) show "SetAttribute current_span ''error.status_code'' (VInt 400)
        \<in> set (fst (ask_question cfg w rq))"
    by (simp only: evs set_append Un_iff simp_thms)
  from bad(1) show "SetAttribute root_span ''error'' (VBool True) \<in> set (fst (ask_question cfg w rq))"
    by (simp only: evs set_append Un_iff simp_thms)
  from bad(2) show "SetAttribute root_span ''error.type'' (VStr ''bad_request'')
        \<in> set (fst (ask_question cfg w rq))"
    by (simp only: evs set_append Un_iff simp_thms)
  from bad(3) show "LfUpdateCurrentSpan
        [(''metadata'',
            VDict [(''status'', VStr ''bad_request''), (''http_status'', VInt 400),
                   (''latency_ms'', VInt (latency_clock w 0))])]
        \<in> set (fst (ask_question cfg w rq))"
    by (simp only: evs set_append Un_iff simp_thms)
qed

theorem failure_branches_mark_the_error_witness:
  "snd (snd (snd (try_block example_config (failing_world (RateLimitError ''slow down''))
       example_request))) = Inl (RateLimitError ''slow down'')
   \<and> SetAttribute current_span ''error'' (VBool True)
        \<in> set (fst (ask_question example_config (failing_world (RateLimitError ''slow down''))
              example_request))
   \<and> SetAttribute current_span ''error.status_code'' (VInt 429)
        \<in> set (fst (ask_question example_config (failing_world (RateLimitError ''slow down''))
              example_request))
   \<and> LfUpdateCurrentSpan
        [(''output'', VDict [(''error'', VStr ''rate_limit''), (''detail'', VStr ''slow down'')]),
         (''metadata'', VDict [(''status'', VStr ''rate_limited''), (''http_status'', VInt 429)])]
        \<in> set (fst (ask_question example_config (failing_world (RateLimitError ''slow down''))
              example_request))
   \<and> filter sets_error_type
        (fst (ask_question example_config (failing_world (RateLimitError ''slow down''))
              example_request)) = []
   \<and> get_json no_question_request = Inr \<lparr>body_userType = Some ''admin'', body_question = None\<rparr>
   \<and> SetAttribute root_span ''error.type'' (VStr ''bad_request'')
        \<in> set (fst (ask_question example_config (answering_world ''hi'') no_question_request))
   \<and> SetAttribute current_span ''error.status_code'' (VInt 400)
        \<in> set (fst (ask_question example_config (answering_world ''hi'') no_question_request))"
proof -
  let ?e = "RateLimitError ''slow down''"
  let ?data = "\<lparr>body_userType = Some ''admin'', body_question = None\<rparr>"
  have h1: "snd (snd (snd (try_block example_config (failing_world ?e) example_request))) = Inl ?e"
    by code_simp
  have g: "get_json no_question_request = Inr ?data"
    by (simp add: no_question_request_def)
  then have h2: "get_json no_question_request = Inr ?data
       \<and> (body_question ?data = None \<or> body_question ?data = Some [])"
    by simp
  note a = mp [OF conjunct1 [OF failure_branches_mark_the_error
    [of example_config "failing_world ?e" example_request ?e]] h1]
  note b = mp [OF conjunct2 [OF failure_branches_mark_the_error
    [of example_config "answering_world ''hi''" no_question_request _ ?data]] h2]
  from a have a': "SetAttribute current_span ''error'' (VBool True)
        \<in> set (fst (ask_question example_config (failing_world ?e) example_request))
   \<and> SetAttribute current_span ''error.status_code'' (VInt 429)
        \<in> set (fst (ask_question example_config (failing_world ?e) example_request))
   \<and> LfUpdateCurrentSpan
        [(''output'', VDict [(''error'', VStr ''rate_limit''), (''detail'', VStr ''slow down'')]),
         (''metadata'', VDict [(''status'', VStr ''rate_limited''), (''http_status'', VInt 429)])]
        \<in> set (fst (ask_question example_config (failing_world ?e) example_request))
   \<and> filter sets_error_type
        (fst (ask_question example_config (failing_world ?e) example_request)) = []"
    by simp
  from h1 a' g b show ?thesis by blast
qed

lemma success_events_attach:
  "LfUpdateCurrentSpan
     [(''output'', VDict [(''answer'', opt_str answer)]),
      (''metadata'',
         VDict [(''status'', VStr ''ok''), (''http_status'', VInt sc), (''latency_ms'', VInt l)])]
     \<in> set (success_events w answer sc l)"
  "LfUpdateCurrentTrace [(''output'', VDict [(''answer'', opt_str answer)])]
     \<in> set (success_events w answer sc l)"
  "SetAttribute root_span ''http.status_code'' (VInt sc) \<in> set (success_events w answer sc l)"
  "SetAttribute root_span ''latency_ms'' (VInt l) \<in> set (success_events w answer sc l)"
  "answer = Some a \<Longrightarrow> a \<noteq> [] \<Longrightarrow>
   SetAttribute root_span ''llm.output.excerpt'' (VStr (take 500 a))
     \<in> set (success_events w answer sc l)"
  by (simp_all add: success_events_def)

lemma status_200_is_success:
  assumes "snd (snd (ask_question cfg w rq)) = 200"
  shows "\<exists>data q llm_evs answer.
           get_json rq = Inr data \<and> body_question data = Some q \<and> q \<noteq> []
           \<and> llm_block cfg w (user_type_of data) q = (llm_evs, Inr answer)"
proof (cases "get_json rq")
  case (Inl e)
  from assms status_of_not_200 [of e] show ?thesis
    by (simp add: ask_question_parse_error [OF Inl])
next
  case (Inr data)
  show ?thesis
  proof (cases "body_question data = None \<or> body_question data = Some []")
    case True
    from assms show ?thesis by (simp add: ask_question_missing [OF Inr True])
  next
    case False
    then obtain q where q: "body_question data = Some q" "q \<noteq> []" by auto
    obtain llm_evs r where l: "llm_block cfg w (user_type_of data) q = (llm_evs, r)"
      by (cases "llm_block cfg w (user_type_of data) q")
    show ?thesis
    proof (cases r)
      case (Inl e)
      with l have l': "llm_block cfg w (user_type_of data) q = (llm_evs, Inl e)" by simp
      from assms status_of_not_200 [of e] show ?thesis
        by (simp add: ask_question_llm_raised [OF \<open>get_json rq = Inr data\<close> q l'])
    next
      case (Inr answer)
      with l \<open>get_json rq = Inr data\<close> q show ?thesis by blast
    qed
  qed
qed

text \<open>
  Claim C8 fails for the Langfuse side: with an answer of 501 characters the output
  attached to the Langfuse trace is the whole answer and not its first 500 characters.
\<close>

theorem trace_output_is_whole_answer_counterexample:
  "snd (snd (ask_question example_config (answering_world (replicate 501 CHR ''a''))
       example_request)) = 200
   \<and> LfUpdateCurrentTrace [(''output'', VDict [(''answer'', VStr (replicate 501 CHR ''a''))])]
        \<in> set (fst (ask_question example_config (answering_world (replicate 501 CHR ''a''))
              example_request))
   \<and> LfUpdateCurrentTrace
          [(''output'', VDict [(''answer'', VStr (take 500 (replicate 501 CHR ''a'')))])]
        \<notin> set (fst (ask_question example_config (answering_world (replicate 501 CHR ''a''))
              example_request))"
  by code_simp

text \<open>
  Claim C8, amended. On the success path (the response has status 200), finalization
  attaches status 200 and the latency to both root spans (attributes of the
  OpenTelemetry root span, metadata of the Langfuse span); it attaches the first 500
  characters of the answer to the OpenTelemetry root span when the answer is not empty,
  and the whole answer to the output of the Langfuse span and of the Langfuse trace; and
  the request has one latency observation, with status 200.
\<close>

theorem success_finalization:
  assumes "snd (snd (ask_question cfg w rq)) = 200"
  shows "\<exists>data answer.
           get_json rq = Inr data
         \<and> snd (ask_question cfg w rq) =
             (VDict [(''answer'', opt_str answer),
                     (''sessionId'', VStr (session_id w)),
                     (''userId'', VStr (user_type_of data))], 200)
         \<and> LfUpdateCurrentSpan
              [(''output'', VDict [(''answer'', opt_str answer)]),
               (''metadata'',
                  VDict [(''status'', VStr ''ok''), (''http_status'', VInt 200),
                         (''latency_ms'', VInt (latency_clock w 0))])]
             \<in> set (fst (ask_question cfg w rq))
         \<and> LfUpdateCurrentTrace [(''output'', VDict [(''answer'', opt_str answer)])]
             \<in> set (fst (ask_question cfg w rq))
         \<and> SetAttribute root_span ''http.status_code'' (VInt 200)
             \<in> set (fst (ask_question cfg w rq))
         \<and> SetAttribute root_span ''latency_ms'' (VInt (latency_clock w 0))
             \<in> set (fst (ask_question cfg w rq))
         \<and> (\<forall>a. answer = Some a \<and> a \<noteq> [] \<longrightarrow>
               SetAttribute root_span ''llm.output.excerpt'' (VStr (take 500 a))
                 \<in> set (fst (ask_question cfg w rq)))
         \<and> filter is_latency_observation (fst (ask_question cfg w rq)) =
             [HistogramRecord ''http.server.request.duration'' (latency_clock w 0)
                [(''http.route'', VStr ''/askquestion''), (''http.status_code'', VInt 200)]]"
proof -
  from status_200_is_success [OF assms] obtain data q llm_evs answer
    where g: "get_json rq = Inr data" and q: "body_question data = Some q" "q \<noteq> []"
      and l: "llm_block cfg w (user_type_of data) q = (llm_evs, Inr answer)"
    by blast
  note run = ask_question_llm_answer [OF g q l]
  have evs: "fst (ask_question cfg w rq) =
      entry_events cfg w
        @ (parsed_events cfg w rq (user_type_of data) (Some q) @ llm_evs
           @ success_events w answer 200 (latency_clock w 0))
        @ exit_events"
    by (simp only: run fst_conv)
  have resp: "snd (ask_question cfg w rq) =
             (VDict [(''answer'', opt_str answer),
                     (''sessionId'', VStr (session_id w)),
                     (''userId'', VStr (user_type_of data))], 200)"
    by (simp only: run snd_conv)
  note att = success_events_attach [where w = w and answer = answer and sc = 200
      and l = "latency_clock w 0"]
  have sub: "\<And>e. e \<in> set (success_events w answer 200 (latency_clock w 0)) \<Longrightarrow>
                 e \<in> set (fst (ask_question cfg w rq))"
    by (simp only: evs set_append Un_iff simp_thms)
  from llm_block_quiet(1) [of cfg w "user_type_of data" q] l
  have quiet: "filter is_latency_observation llm_evs = []" by simp
  have once: "filter is_latency_observation (fst (ask_question cfg w rq)) =
             [HistogramRecord ''http.server.request.duration'' (latency_clock w 0)
                [(''http.route'', VStr ''/askquestion''), (''http.status_code'', VInt 200)]]"
    by (simp only: evs filter_append entry_exit_latency parsed_events_quiet quiet
        success_events_obs append_Nil append_Nil2)
  have excerpt: "\<forall>a. answer = Some a \<and> a \<noteq> [] \<longrightarrow>
               SetAttribute root_span ''llm.output.excerpt'' (VStr (take 500 a))
                 \<in> set (fst (ask_question cfg w rq))"
    using att(5) sub by blast
  from g resp sub [OF att(1)] sub [OF att(2)] sub [OF att(3)] sub [OF att(4)] excerpt once
  show ?thesis by blast
qed

theorem success_finalization_witness:
  "snd (snd (ask_question example_config (answering_world ''hi'') example_request)) = 200
   \<and> LfUpdateCurrentTrace [(''output'', VDict [(''answer'', VStr ''hi'')])]
        \<in> set (fst (ask_question example_config (answering_world ''hi'') example_request))
   \<and> SetAttribute root_span ''llm.output.excerpt'' (VStr ''hi'')
        \<in> set (fst (ask_question example_config (answering_world ''hi'') example_request))
   \<and> filter is_latency_observation
        (fst (ask_question example_config (answering_world ''hi'') example_request)) =
       [HistogramRecord ''http.server.request.duration'' 7
          [(''http.route'', VStr ''/askquestion''), (''http.status_code'', VInt 200)]]"
proof -
  let ?run = "ask_question example_config (answering_world ''hi'') example_request"
  have h: "snd (snd ?run) = 200" by code_simp
  have body: "fst (snd ?run) =
      VDict [(''answer'', VStr ''hi''), (''sessionId'', VStr ''sess-1''),
             (''userId'', VStr ''anonymous'')]"
    by code_simp
  from success_finalization [OF h] obtain data answer where
    r: "snd ?run = (VDict [(''answer'', opt_str answer),
                     (''sessionId'', VStr (session_id (answering_world ''hi''))),
                     (''userId'', VStr (user_type_of data))], 200)"
    and t: "LfUpdateCurrentTrace [(''output'', VDict [(''answer'', opt_str answer)])]
             \<in> set (fst ?run)"
    and x: "\<forall>a. answer = Some a \<and> a \<noteq> [] \<longrightarrow>
               SetAttribute root_span ''llm.output.excerpt'' (VStr (take 500 a))
                 \<in> set (fst ?run)"
    and o: "filter is_latency_observation (fst ?run) =
             [HistogramRecord ''http.server.request.duration''
                (latency_clock (answering_world ''hi'') 0)
                [(''http.route'', VStr ''/askquestion''), (''http.status_code'', VInt 200)]]"
    by blast
  from r body have "opt_str answer = VStr ''hi''" by simp
  then have a: "answer = Some ''hi''" by (cases answer) (simp_all add: opt_str_def)
  from x a have x': "SetAttribute root_span ''llm.output.excerpt'' (VStr ''hi'') \<in> set (fst ?run)"
    by simp
  from t a have t': "LfUpdateCurrentTrace [(''output'', VDict [(''answer'', VStr ''hi'')])]
        \<in> set (fst ?run)"
    by (simp add: opt_str_def)
  from o have o': "filter is_latency_observation (fst ?run) =
       [HistogramRecord ''http.server.request.duration'' 7
          [(''http.route'', VStr ''/askquestion''), (''http.status_code'', VInt 200)]]"
    by (simp add: answering_world_def)
  from h t' x' o' show ?thesis by blast
qed

end
